theory Spec2Isabelle
  imports Main "HOL-Library.Word"
begin

unbundle bit_operations_syntax

section \<open>Python strings\<close>

text \<open>
  The script \<^verbatim>\<open>scripts/make-dns-records.py\<close> works on Python \<^verbatim>\<open>str\<close> values. They
  are modelled as \<^typ>\<open>string\<close>; the text the script handles (record types, host names,
  address literals) is ASCII, and the case mapping below is the ASCII part of
  \<^verbatim>\<open>str.upper\<close>.
\<close>

definition upper_table :: "(char \<times> char) list" where
  "upper_table = zip ''abcdefghijklmnopqrstuvwxyz'' ''ABCDEFGHIJKLMNOPQRSTUVWXYZ''"

definition upper_char :: "char \<Rightarrow> char" where
  "upper_char c = (case map_of upper_table c of Some u \<Rightarrow> u | None \<Rightarrow> c)"

text \<open>\<^verbatim>\<open>s.upper()\<close>\<close>

definition upper :: "string \<Rightarrow> string" where
  "upper s = map upper_char s"

text \<open>\<^verbatim>\<open>s.split(sep)\<close> for a separator of one character: never an empty list.\<close>

fun split :: "char \<Rightarrow> string \<Rightarrow> string list" where
  "split sep [] = [[]]"
| "split sep (c # cs) =
     (if c = sep then [] # split sep cs
      else (case split sep cs of [] \<Rightarrow> [[c]] | w # ws \<Rightarrow> (c # w) # ws))"

text \<open>\<^verbatim>\<open>sep.join(parts)\<close>\<close>

fun join :: "string \<Rightarrow> string list \<Rightarrow> string" where
  "join sep [] = []"
| "join sep [w] = w"
| "join sep (w # v # ws) = w @ sep @ join sep (v # ws)"

text \<open>\<^verbatim>\<open>s.lstrip(chars)\<close>: drops leading characters while they belong to \<^verbatim>\<open>chars\<close>.\<close>

definition lstrip :: "string \<Rightarrow> string \<Rightarrow> string" where
  "lstrip chars s = dropWhile (\<lambda>c. c \<in> set chars) s"

text \<open>\<^verbatim>\<open>s.endswith('.')\<close>\<close>

definition endswith_dot :: "string \<Rightarrow> bool" where
  "endswith_dot s = (s \<noteq> [] \<and> last s = CHR ''.'')"

text \<open>\<^verbatim>\<open>s.replace(a, b)\<close> for single characters.\<close>

definition replace_char :: "char \<Rightarrow> char \<Rightarrow> string \<Rightarrow> string" where
  "replace_char a b s = map (\<lambda>c. if c = a then b else c) s"

text \<open>
  \<^verbatim>\<open>s[:k]\<close> for an integer \<^verbatim>\<open>k\<close>: a negative bound counts from the end of the string.
\<close>

definition slice_to :: "string \<Rightarrow> int \<Rightarrow> string" where
  "slice_to s k = (if k < 0 then take (nat (int (length s) + k)) s else take (nat k) s)"

text \<open>
  Python's integers are unbounded: they are \<^typ>\<open>int\<close> here. \<^verbatim>\<open>str(n)\<close> and
  \<^verbatim>\<open>'%x' % n\<close> for an integer that is not negative (the script formats octets, prefix
  lengths and hextets only).
\<close>

definition digit_char :: "int \<Rightarrow> char" where
  "digit_char d = ''0123456789abcdef'' ! nat d"

function str_int :: "int \<Rightarrow> string" where
  "str_int n = (if n < 10 then [digit_char n] else str_int (n div 10) @ [digit_char (n mod 10)])"
  by pat_completeness auto
termination
  by (relation "measure (\<lambda>n. nat n)") auto

declare str_int.simps [simp del]

function hex_int :: "int \<Rightarrow> string" where
  "hex_int n = (if n < 16 then [digit_char n] else hex_int (n div 16) @ [digit_char (n mod 16)])"
  by pat_completeness auto
termination
  by (relation "measure (\<lambda>n. nat n)") auto

declare hex_int.simps [simp del]

text \<open>\<^verbatim>\<open>int(s, 10)\<close> and \<^verbatim>\<open>int(s, 16)\<close> on a string of digits that was checked before.\<close>

definition digit_table :: "(char \<times> int) list" where
  "digit_table = zip ''0123456789abcdefABCDEF''
     [0, 1, 2, 3, 4, 5, 6, 7, 8, 9, 10, 11, 12, 13, 14, 15, 10, 11, 12, 13, 14, 15]"

definition digit_val :: "char \<Rightarrow> int" where
  "digit_val c = (case map_of digit_table c of Some d \<Rightarrow> d | None \<Rightarrow> 0)"

definition int_of_digits :: "int \<Rightarrow> string \<Rightarrow> int" where
  "int_of_digits base s = foldl (\<lambda>acc c. acc * base + digit_val c) 0 s"

text \<open>\<^verbatim>\<open>s.isascii() and s.isdigit()\<close>: not empty, decimal digits only.\<close>

definition is_ascii_digits :: "string \<Rightarrow> bool" where
  "is_ascii_digits s = (s \<noteq> [] \<and> list_all (\<lambda>c. c \<in> set ''0123456789'') s)"

section \<open>Errors\<close>

text \<open>
  The exceptions the script can end with. \<open>InvalidRecordType\<close> is the \<^verbatim>\<open>ValueError\<close>
  that \<^verbatim>\<open>_write_entry\<close> raises itself and carries its message; \<open>AddressParseError\<close> is
  the \<^verbatim>\<open>ValueError\<close> (also \<^verbatim>\<open>AddressValueError\<close>, \<^verbatim>\<open>NetmaskValueError\<close>) that the
  \<^verbatim>\<open>ipaddress\<close> module raises for a text it refuses; \<open>LookupError\<close> is the
  \<^verbatim>\<open>KeyError\<close> of a dictionary read and carries the key; \<open>ValueError\<close> is any other
  \<^verbatim>\<open>ValueError\<close> of the module, with its message.
\<close>

datatype error =
    InvalidRecordType string
  | AddressParseError
  | LookupError string
  | AssertionError
  | ValueError string

section \<open>The \<^verbatim>\<open>ipaddress\<close> module\<close>

text \<open>
  The script imports Python's standard \<^verbatim>\<open>ipaddress\<close> module. What it uses of the
  module is modelled here after the module's source (CPython 3.11): addresses hold their
  integer, an IPv6 address also its scope id; networks hold the network address and the
  prefix length. Two address objects are equal when version, integer and scope agree,
  which is equality of the datatype.
\<close>

datatype ipaddress =
    IPv4Address "32 word"
  | IPv6Address "128 word" "string option"

datatype ipnetwork =
    IPv4Network "32 word" nat
  | IPv6Network "128 word" "string option" nat

text \<open>\<^verbatim>\<open>_BaseV4._parse_octet\<close>\<close>

definition parse_octet :: "string \<Rightarrow> int option" where
  "parse_octet octet_str =
     (if octet_str = [] then None
      else if \<not> is_ascii_digits octet_str then None
      else if length octet_str > 3 then None
      else if octet_str \<noteq> ''0'' \<and> hd octet_str = CHR ''0'' then None
      else (let octet_int = int_of_digits 10 octet_str in
            if octet_int > 255 then None else Some octet_int))"

text \<open>\<^verbatim>\<open>_BaseV4._ip_int_from_string\<close>: four octets, big endian.\<close>

definition v4_ip_int_from_string :: "string \<Rightarrow> int option" where
  "v4_ip_int_from_string ip_str =
     (if ip_str = [] then None
      else (case map parse_octet (split CHR ''.'' ip_str) of
              [Some a, Some b, Some c, Some d] \<Rightarrow> Some (((a * 256 + b) * 256 + c) * 256 + d)
            | _ \<Rightarrow> None))"

text \<open>\<^verbatim>\<open>IPv4Address(address)\<close> on a string.\<close>

definition IPv4Address_str :: "string \<Rightarrow> ipaddress option" where
  "IPv4Address_str addr_str =
     (if CHR ''/'' \<in> set addr_str then None
      else map_option (\<lambda>n. IPv4Address (of_int n)) (v4_ip_int_from_string addr_str))"

text \<open>\<^verbatim>\<open>_BaseV6._parse_hextet\<close>\<close>

definition parse_hextet :: "string \<Rightarrow> int option" where
  "parse_hextet hextet_str =
     (if \<not> list_all (\<lambda>c. c \<in> set ''0123456789ABCDEFabcdef'') hextet_str then None
      else if length hextet_str > 4 then None
      else if hextet_str = [] then None
      else Some (int_of_digits 16 hextet_str))"

text \<open>
  The loop of \<^verbatim>\<open>_ip_int_from_string\<close> that shifts the hextets into the integer; the first
  hextet that does not parse ends it.
\<close>

fun shift_hextets :: "int \<Rightarrow> string list \<Rightarrow> int option" where
  "shift_hextets ip_int [] = Some ip_int"
| "shift_hextets ip_int (p # ps) =
     (case parse_hextet p of
        None \<Rightarrow> None
      | Some h \<Rightarrow> shift_hextets (ip_int * 65536 + h) ps)"

text \<open>
  The scan for \<^verbatim>\<open>'::'\<close>: the indices \<open>1 \<le> i < len(parts) - 1\<close> of empty parts. More
  than one is an error, one is \<^verbatim>\<open>skip_index\<close>.
\<close>

definition skip_indices :: "string list \<Rightarrow> nat list" where
  "skip_indices parts = filter (\<lambda>i. parts ! i = []) [1 ..< length parts - 1]"

text \<open>\<^verbatim>\<open>_BaseV6._ip_int_from_string\<close>\<close>

definition v6_ip_int_from_string :: "string \<Rightarrow> int option" where
  "v6_ip_int_from_string ip_str =
     (if ip_str = [] then None
      else
        let parts0 = split CHR '':'' ip_str in
        if length parts0 < 3 then None
        else
          (case (if CHR ''.'' \<in> set (last parts0)
                 then (case IPv4Address_str (last parts0) of
                         Some (IPv4Address ipv4_int) \<Rightarrow>
                           Some (butlast parts0 @
                                 [hex_int (uint (drop_bit 16 ipv4_int AND 0xFFFF)),
                                  hex_int (uint (ipv4_int AND 0xFFFF))])
                       | _ \<Rightarrow> None)
                 else Some parts0) of
             None \<Rightarrow> None
           | Some parts \<Rightarrow>
               if length parts > 9 then None
               else
                 (case skip_indices parts of
                    [] \<Rightarrow>
                      if length parts \<noteq> 8 then None
                      else if hd parts = [] then None
                      else if last parts = [] then None
                      else shift_hextets 0 parts
                  | [skip_index] \<Rightarrow>
                      let hi0 = skip_index;
                          lo0 = length parts - skip_index - 1 in
                      if hd parts = [] \<and> hi0 - 1 \<noteq> 0 then None
                      else
                        let parts_hi = (if hd parts = [] then hi0 - 1 else hi0) in
                        if last parts = [] \<and> lo0 - 1 \<noteq> 0 then None
                        else
                          let parts_lo = (if last parts = [] then lo0 - 1 else lo0) in
                          if parts_hi + parts_lo > 7 then None
                          else
                            (case shift_hextets 0 (take parts_hi parts) of
                               None \<Rightarrow> None
                             | Some hi \<Rightarrow>
                                 shift_hextets (hi * 65536 ^ (8 - (parts_hi + parts_lo)))
                                   (drop (length parts - parts_lo) parts))
                  | _ \<Rightarrow> None)))"

text \<open>
  \<^verbatim>\<open>_BaseV6._split_scope_id\<close>: \<^verbatim>\<open>ip_str.partition('%')\<close>; an empty scope id or a
  second \<^verbatim>\<open>%\<close> is an error.
\<close>

definition split_scope_id :: "string \<Rightarrow> (string \<times> string option) option" where
  "split_scope_id ip_str =
     (let addr = takeWhile (\<lambda>c. c \<noteq> CHR ''%'') ip_str;
          rest = dropWhile (\<lambda>c. c \<noteq> CHR ''%'') ip_str in
      if rest = [] then Some (addr, None)
      else if tl rest = [] \<or> CHR ''%'' \<in> set (tl rest) then None
      else Some (addr, Some (tl rest)))"

text \<open>\<^verbatim>\<open>IPv6Address(address)\<close> on a string.\<close>

definition IPv6Address_str :: "string \<Rightarrow> ipaddress option" where
  "IPv6Address_str addr_str =
     (if CHR ''/'' \<in> set addr_str then None
      else (case split_scope_id addr_str of
              None \<Rightarrow> None
            | Some (a, scope_id) \<Rightarrow>
                map_option (\<lambda>n. IPv6Address (of_int n) scope_id) (v6_ip_int_from_string a)))"

text \<open>
  \<^verbatim>\<open>ipaddress.ip_address(address)\<close>: IPv4 first, then IPv6, else \<^verbatim>\<open>ValueError\<close>.
\<close>

definition ip_address :: "string \<Rightarrow> error + ipaddress" where
  "ip_address address =
     (case IPv4Address_str address of
        Some a \<Rightarrow> Inr a
      | None \<Rightarrow>
          (case IPv6Address_str address of
             Some a \<Rightarrow> Inr a
           | None \<Rightarrow> Inl AddressParseError))"

text \<open>\<^verbatim>\<open>ip_int.to_bytes(4, 'big')\<close> and \<^verbatim>\<open>_BaseV4._string_from_ip_int\<close>\<close>

definition to_bytes4 :: "32 word \<Rightarrow> int list" where
  "to_bytes4 ip_int = map (\<lambda>i. uint (drop_bit (8 * i) ip_int AND 0xFF)) [3, 2, 1, 0]"

definition v4_string_from_ip_int :: "32 word \<Rightarrow> string" where
  "v4_string_from_ip_int ip_int = join ''.'' (map str_int (to_bytes4 ip_int))"

text \<open>\<^verbatim>\<open>'%032x' % ip_int\<close>\<close>

definition hex_str32 :: "128 word \<Rightarrow> string" where
  "hex_str32 ip_int = map (\<lambda>i. digit_char (uint (drop_bit (4 * i) ip_int AND 0xF))) (rev [0 ..< 32])"

text \<open>
  \<^verbatim>\<open>_BaseV6._explode_shorthand_ip_string\<close> of an address without scope id: the hex digits
  in groups of four. (The module gets the integer by parsing \<^verbatim>\<open>str(self)\<close> again; for
  an address without scope id that is the integer it holds.)
\<close>

definition exploded :: "128 word \<Rightarrow> string" where
  "exploded ip_int =
     join '':'' (map (\<lambda>x. take 4 (drop x (hex_str32 ip_int))) [0, 4, 8, 12, 16, 20, 24, 28])"

text \<open>
  \<^verbatim>\<open>address.reverse_pointer\<close>. For IPv4 the octets of \<^verbatim>\<open>str(self)\<close> in reverse; for
  IPv6 the reversed nibbles of \<^verbatim>\<open>self.exploded\<close>. With a scope id, \<^verbatim>\<open>str(self)\<close> ends
  in \<^verbatim>\<open>%scope\<close>, the module parses that text as an address, and the hextet holding
  the \<^verbatim>\<open>%\<close> raises \<^verbatim>\<open>AddressValueError\<close>.
\<close>

definition reverse_pointer :: "ipaddress \<Rightarrow> error + string" where
  "reverse_pointer a =
     (case a of
        IPv4Address ip \<Rightarrow>
          Inr (join ''.'' (rev (split CHR ''.'' (v4_string_from_ip_int ip))) @ ''.in-addr.arpa'')
      | IPv6Address ip scope_id \<Rightarrow>
          if scope_id \<noteq> None \<and> scope_id \<noteq> Some [] then Inl AddressParseError
          else Inr (join ''.'' (map (\<lambda>c. [c]) (filter (\<lambda>c. c \<noteq> CHR '':'') (rev (exploded ip))))
                    @ ''.ip6.arpa''))"

definition network_address :: "ipnetwork \<Rightarrow> ipaddress" where
  "network_address net =
     (case net of IPv4Network n p \<Rightarrow> IPv4Address n | IPv6Network n scope_id p \<Rightarrow> IPv6Address n scope_id)"

definition prefixlen :: "ipnetwork \<Rightarrow> nat" where
  "prefixlen net = (case net of IPv4Network n p \<Rightarrow> p | IPv6Network n scope_id p \<Rightarrow> p)"

text \<open>
  \<^verbatim>\<open>network.reverse_pointer\<close>: the same computation on \<^verbatim>\<open>str(self)\<close>, which for a
  network is \<^verbatim>\<open>'%s/%d' % (network_address, prefixlen)\<close>.
\<close>

definition network_reverse_pointer :: "ipnetwork \<Rightarrow> error + string" where
  "network_reverse_pointer net =
     (case net of
        IPv4Network n p \<Rightarrow>
          Inr (join ''.'' (rev (split CHR ''.'' (v4_string_from_ip_int n @ ''/'' @ str_int (int p))))
               @ ''.in-addr.arpa'')
      | IPv6Network n scope_id p \<Rightarrow>
          if scope_id \<noteq> None \<and> scope_id \<noteq> Some [] then Inl AddressParseError
          else Inr (join ''.'' (map (\<lambda>c. [c])
                      (filter (\<lambda>c. c \<noteq> CHR '':'') (rev (exploded n @ ''/'' @ str_int (int p)))))
                    @ ''.ip6.arpa''))"

text \<open>\<^verbatim>\<open>_ip_int_from_prefix\<close>: \<^verbatim>\<open>ALL_ONES ^ (ALL_ONES >> prefixlen)\<close>\<close>

definition netmask4 :: "nat \<Rightarrow> 32 word" where
  "netmask4 p = (- 1) XOR drop_bit p (- 1)"

definition netmask6 :: "nat \<Rightarrow> 128 word" where
  "netmask6 p = (- 1) XOR drop_bit p (- 1)"

text \<open>
  \<^verbatim>\<open>address in network\<close> (\<^verbatim>\<open>_BaseNetwork.__contains__\<close>): false across versions, else
  the address under the netmask is the network address.
\<close>

definition contains :: "ipnetwork \<Rightarrow> ipaddress \<Rightarrow> bool" where
  "contains net other =
     (case (net, other) of
        (IPv4Network n p, IPv4Address ip) \<Rightarrow> ip AND netmask4 p = n
      | (IPv6Network n scope_id p, IPv6Address ip scope_id') \<Rightarrow> ip AND netmask6 p = n
      | _ \<Rightarrow> False)"

text \<open>\<^verbatim>\<open>_prefix_from_prefix_string\<close>\<close>

definition prefix_from_prefix_string :: "nat \<Rightarrow> string \<Rightarrow> nat option" where
  "prefix_from_prefix_string max_prefixlen prefixlen_str =
     (if \<not> is_ascii_digits prefixlen_str then None
      else (let p = int_of_digits 10 prefixlen_str in
            if 0 \<le> p \<and> p \<le> int max_prefixlen then Some (nat p) else None))"

text \<open>\<^verbatim>\<open>n.bit_length()\<close> of an integer that is not negative.\<close>

function bit_length :: "int \<Rightarrow> nat" where
  "bit_length n = (if n \<le> 0 then 0 else Suc (bit_length (n div 2)))"
  by pat_completeness auto
termination
  by (relation "measure (\<lambda>n. nat n)") auto

declare bit_length.simps [simp del]

text \<open>\<^verbatim>\<open>_count_righthand_zero_bits\<close>\<close>

definition count_righthand_zero_bits :: "int \<Rightarrow> nat \<Rightarrow> nat" where
  "count_righthand_zero_bits number bits =
     (if number = 0 then bits
      else min bits (bit_length (NOT number AND (number - 1))))"

text \<open>\<^verbatim>\<open>_prefix_from_ip_int\<close> for IPv4\<close>

definition prefix_from_ip_int :: "int \<Rightarrow> nat option" where
  "prefix_from_ip_int ip_int =
     (let trailing_zeroes = count_righthand_zero_bits ip_int 32;
          p = 32 - trailing_zeroes;
          leading_ones = drop_bit trailing_zeroes ip_int;
          all_ones = push_bit p 1 - 1
      in if leading_ones \<noteq> all_ones then None else Some p)"

text \<open>\<^verbatim>\<open>_prefix_from_ip_string\<close>: a dotted netmask, or else a dotted hostmask.\<close>

definition prefix_from_ip_string :: "string \<Rightarrow> nat option" where
  "prefix_from_ip_string ip_str =
     (case v4_ip_int_from_string ip_str of
        None \<Rightarrow> None
      | Some ip_int \<Rightarrow>
          (case prefix_from_ip_int ip_int of
             Some p \<Rightarrow> Some p
           | None \<Rightarrow> prefix_from_ip_int (ip_int XOR 4294967295)))"

text \<open>\<^verbatim>\<open>_BaseV4._make_netmask\<close> and \<^verbatim>\<open>_BaseV6._make_netmask\<close> on a string.\<close>

definition make_netmask4 :: "string \<Rightarrow> nat option" where
  "make_netmask4 arg =
     (case prefix_from_prefix_string 32 arg of
        Some p \<Rightarrow> Some p
      | None \<Rightarrow> prefix_from_ip_string arg)"

definition make_netmask6 :: "string \<Rightarrow> nat option" where
  "make_netmask6 arg = prefix_from_prefix_string 128 arg"

text \<open>\<^verbatim>\<open>_split_addr_prefix\<close> on a string: at most one \<^verbatim>\<open>/\<close>.\<close>

definition split_addr_prefix :: "string \<Rightarrow> (string \<times> string option) option" where
  "split_addr_prefix address =
     (case split CHR ''/'' address of
        [addr] \<Rightarrow> Some (addr, None)
      | [addr, m] \<Rightarrow> Some (addr, Some m)
      | _ \<Rightarrow> None)"

text \<open>
  \<^verbatim>\<open>IPv4Network(address)\<close> and \<^verbatim>\<open>IPv6Network(address)\<close> on a string, with the default
  \<^verbatim>\<open>strict=True\<close>: host bits set are a \<^verbatim>\<open>ValueError\<close>. Without a mask the prefix
  length is the full width.
\<close>

definition IPv4Network_str :: "string \<Rightarrow> error + ipnetwork" where
  "IPv4Network_str address =
     (case split_addr_prefix address of
        None \<Rightarrow> Inl AddressParseError
      | Some (addr, opt_mask) \<Rightarrow>
          (case IPv4Address_str addr of
             Some (IPv4Address packed) \<Rightarrow>
               (case (case opt_mask of None \<Rightarrow> Some 32 | Some m \<Rightarrow> make_netmask4 m) of
                  None \<Rightarrow> Inl AddressParseError
                | Some p \<Rightarrow>
                    if packed AND netmask4 p \<noteq> packed then Inl (ValueError ''has host bits set'')
                    else Inr (IPv4Network packed p))
           | _ \<Rightarrow> Inl AddressParseError))"

definition IPv6Network_str :: "string \<Rightarrow> error + ipnetwork" where
  "IPv6Network_str address =
     (case split_addr_prefix address of
        None \<Rightarrow> Inl AddressParseError
      | Some (addr, opt_mask) \<Rightarrow>
          (case IPv6Address_str addr of
             Some (IPv6Address packed scope_id) \<Rightarrow>
               (case (case opt_mask of None \<Rightarrow> Some 128 | Some m \<Rightarrow> make_netmask6 m) of
                  None \<Rightarrow> Inl AddressParseError
                | Some p \<Rightarrow>
                    if packed AND netmask6 p \<noteq> packed then Inl (ValueError ''has host bits set'')
                    else Inr (IPv6Network packed scope_id p))
           | _ \<Rightarrow> Inl AddressParseError))"

text \<open>
  \<^verbatim>\<open>network.hosts()\<close>: the addresses between network and broadcast address; a /31
  (/127) yields both of its addresses, a /32 (/128) its one address, and IPv6 keeps the
  last address. Python's \<^verbatim>\<open>range(a, b)\<close> is the list \<open>[a .. b - 1]\<close>.
\<close>

definition network_hosts :: "ipnetwork \<Rightarrow> ipaddress list" where
  "network_hosts net =
     (case net of
        IPv4Network n p \<Rightarrow>
          (let network = uint n;
               broadcast = uint (n OR (netmask4 p XOR (- 1)))
           in if p = 31 then map (\<lambda>x. IPv4Address (of_int x)) [network .. broadcast]
              else if p = 32 then [IPv4Address n]
              else map (\<lambda>x. IPv4Address (of_int x)) [network + 1 .. broadcast - 1])
      | IPv6Network n scope_id p \<Rightarrow>
          (let network = uint n;
               broadcast = uint (n OR (netmask6 p XOR (- 1)))
           in if p = 127 then map (\<lambda>x. IPv6Address (of_int x) None) [network .. broadcast]
              else if p = 128 then [IPv6Address n scope_id]
              else map (\<lambda>x. IPv6Address (of_int x) None) [network + 1 .. broadcast]))"

text \<open>
  \<^verbatim>\<open>network.supernet(new_prefix=k)\<close>. The new network is built from the pair
  \<^verbatim>\<open>(network_address & (netmask << prefixlen_diff), new_prefixlen)\<close>, and the constructor
  checks the host bits again. (Python's shift keeps the bits above the address width;
  the conjunction with the address drops them, as the shift on words does.)
\<close>

definition supernet :: "ipnetwork \<Rightarrow> nat \<Rightarrow> error + ipnetwork" where
  "supernet net new_prefix =
     (if prefixlen net = 0 then Inr net
      else if new_prefix > prefixlen net then Inl (ValueError ''new prefix must be shorter'')
      else
        (let prefixlen_diff = prefixlen net - new_prefix;
             new_prefixlen = prefixlen net - prefixlen_diff
         in case net of
              IPv4Network n p \<Rightarrow>
                (let packed = n AND push_bit prefixlen_diff (netmask4 p) in
                 if packed AND netmask4 new_prefixlen \<noteq> packed
                 then Inl (ValueError ''has host bits set'')
                 else Inr (IPv4Network packed new_prefixlen))
            | IPv6Network n scope_id p \<Rightarrow>
                (let packed = n AND push_bit prefixlen_diff (netmask6 p) in
                 if packed AND netmask6 new_prefixlen \<noteq> packed
                 then Inl (ValueError ''has host bits set'')
                 else Inr (IPv6Network packed None new_prefixlen))))"

section \<open>The state of the script\<close>

text \<open>
  The script keeps two module-level dictionaries, \<^verbatim>\<open>ptr_records\<close> (the PTR index, from
  address objects to names) and \<^verbatim>\<open>namedconf_entries\<close> (the zone registry, from zone
  names to file names), and it writes files. A Python dictionary iterates in insertion
  order, and both dictionaries are iterated, so they are association lists with the
  update of a dictionary: a key that is present keeps its place and gets the new value,
  a new key goes to the end. A file is the list of the texts written to it, in order;
  its content is their concatenation. Opening a file for writing empties it.

  The settings the script reads from \<^verbatim>\<open>global_vars\<close>, \<^verbatim>\<open>args\<close> and \<^verbatim>\<open>sys.argv\<close> are
  the fields of \<open>config\<close>, as the text an f-string makes of them; a run in which one of
  them is missing is outside this model. The progress lines the script prints are left
  out.
\<close>

fun dict_set :: "'k \<Rightarrow> 'v \<Rightarrow> ('k \<times> 'v) list \<Rightarrow> ('k \<times> 'v) list" where
  "dict_set k v [] = [(k, v)]"
| "dict_set k v ((k', v') # d) =
     (if k' = k then (k', v) # d else (k', v') # dict_set k v d)"

record config =
  sys_argv0 :: string
  out_dir :: string
  dns_ttl :: string
  dns_nameserver_prefix :: string
  dns_domain :: string
  dns_zones_dir :: string

record state =
  ptr_records :: "(ipaddress \<times> string) list"
  namedconf_entries :: "(string \<times> string) list"
  files :: "string \<rightharpoonup> string list"

text \<open>
  A statement of the script takes the state and gives the state it leaves, with a value
  or the exception it raised. An exception keeps what was written before it.
\<close>

type_synonym 'a prog = "state \<Rightarrow> (error + 'a) \<times> state"

definition return :: "'a \<Rightarrow> 'a prog" where
  "return x s = (Inr x, s)"

definition raise :: "error \<Rightarrow> 'a prog" where
  "raise e s = (Inl e, s)"

definition lift :: "error + 'a \<Rightarrow> 'a prog" where
  "lift r s = (r, s)"

definition and_then :: "'a prog \<Rightarrow> ('a \<Rightarrow> 'b prog) \<Rightarrow> 'b prog" where
  "and_then m f s = (case m s of (Inl e, s') \<Rightarrow> (Inl e, s') | (Inr x, s') \<Rightarrow> f x s')"

text \<open>A \<^verbatim>\<open>for\<close> loop over a list: the first exception ends it.\<close>

fun for_each :: "('a \<Rightarrow> unit prog) \<Rightarrow> 'a list \<Rightarrow> unit prog" where
  "for_each body [] s = (Inr (), s)"
| "for_each body (x # xs) s =
     (case body x s of (Inl e, s') \<Rightarrow> (Inl e, s') | (Inr u, s') \<Rightarrow> for_each body xs s')"

text \<open>\<^verbatim>\<open>d[key]\<close>: \<^verbatim>\<open>KeyError\<close> when the key is missing.\<close>

definition getitem :: "(string \<rightharpoonup> 'v) \<Rightarrow> string \<Rightarrow> 'v prog" where
  "getitem d k = (case d k of None \<Rightarrow> raise (LookupError k) | Some v \<Rightarrow> return v)"

text \<open>\<^verbatim>\<open>os.path.join(a, b)\<close> for two components.\<close>

definition path_join :: "string \<Rightarrow> string \<Rightarrow> string" where
  "path_join a b =
     (if b \<noteq> [] \<and> hd b = CHR ''/'' then b
      else if a = [] \<or> last a = CHR ''/'' then a @ b
      else a @ ''/'' @ b)"

definition nl :: string where
  "nl = [CHR 0x0A]"

definition dquote :: string where
  "dquote = [CHR 0x22]"

text \<open>\<^verbatim>\<open>fd.write(text)\<close>, the handle being the path of the open file.\<close>

definition fd_write :: "string \<Rightarrow> string \<Rightarrow> state \<Rightarrow> state" where
  "fd_write fd txt s =
     s\<lparr>files := (files s)(fd \<mapsto> (case files s fd of None \<Rightarrow> [txt] | Some ws \<Rightarrow> ws @ [txt]))\<rparr>"

text \<open>\<^verbatim>\<open>open(path, 'w')\<close>\<close>

definition open_w :: "string \<Rightarrow> state \<Rightarrow> state" where
  "open_w path s = s\<lparr>files := (files s)(path \<mapsto> [])\<rparr>"

section \<open>The script\<close>

text \<open>The text \<^verbatim>\<open>get_zone_file\<close> writes at the head of a zone file.\<close>

definition zone_header :: "config \<Rightarrow> string \<Rightarrow> string" where
  "zone_header cfg zonename =
     ''; Autogenerated by '' @ sys_argv0 cfg @ '', do not edit!'' @ nl @
     ''$ORIGIN '' @ zonename @ nl @
     ''$TTL '' @ dns_ttl cfg @ nl @
     ''@   IN  SOA     '' @ dns_nameserver_prefix cfg @ ''.'' @ dns_domain cfg @
       '' placeholder-see-registry.'' @ dns_domain cfg @ '' ('' @ nl @
     ''        1           ; serial'' @ nl @
     ''        7200        ; refresh period'' @ nl @
     ''        2400        ; retry period'' @ nl @
     ''        86400       ; expiration'' @ nl @
     ''        3600        ; minimum TTL'' @ nl @
     '')'' @ nl"

text \<open>
  \<^verbatim>\<open>get_zone_file(zonename)\<close>: registers the zone, opens its file and writes the head.
  It returns the handle.
\<close>

definition get_zone_file :: "config \<Rightarrow> string \<Rightarrow> string prog" where
  "get_zone_file cfg zonename s =
     (let fname = replace_char CHR ''/'' CHR ''_'' zonename @ ''.zone'';
          s1 = s\<lparr>namedconf_entries := dict_set zonename fname (namedconf_entries s)\<rparr>;
          local_path = path_join (out_dir cfg) fname;
          s2 = open_w local_path s1;
          s3 = fd_write local_path (zone_header cfg zonename) s2
      in (Inr local_path, s3))"

text \<open>The line of one record, \<^verbatim>\<open>f"{name} IN {rtype} {data}\n"\<close>.\<close>

definition entry_line :: "string \<Rightarrow> string \<Rightarrow> string \<Rightarrow> string" where
  "entry_line name rtype data = name @ '' IN '' @ rtype @ '' '' @ data @ nl"

text \<open>
  \<^verbatim>\<open>_write_entry(fd, name, rtype, data, reverse_domain=None)\<close>. The line is written
  first; with a reverse domain the type is checked, the data parsed and the PTR index
  updated.
\<close>

definition write_entry :: "string \<Rightarrow> string \<Rightarrow> string \<Rightarrow> string \<Rightarrow> string option \<Rightarrow> unit prog" where
  "write_entry fd name rtype0 data reverse_domain s =
     (let rtype = upper rtype0;
          s1 = fd_write fd (entry_line name rtype data) s
      in case reverse_domain of
           None \<Rightarrow> (Inr (), s1)
         | Some rd \<Rightarrow>
             if rtype \<notin> {''A'', ''AAAA''}
             then (Inl (InvalidRecordType
                     (''Cannot add PTR record: expected rtype A or AAAA but got '' @ rtype)), s1)
             else (case ip_address data of
                     Inl e \<Rightarrow> (Inl e, s1)
                   | Inr ipaddr \<Rightarrow>
                       (Inr (), s1\<lparr>ptr_records :=
                                  dict_set ipaddr (name @ ''.'' @ rd) (ptr_records s1)\<rparr>)))"

text \<open>
  \<^verbatim>\<open>write_forward_zone(domain, records)\<close>. \<open>forward_record\<close> is the body of its loop over
  the record specifications, \<open>host_record\<close> the body of its loop over the inventory
  (the script's global \<^verbatim>\<open>hosts\<close>). Specifications and host data are dictionaries from
  keys to texts.
\<close>

type_synonym inventory = "(string \<times> (string \<rightharpoonup> string)) list"

definition forward_record ::
  "string \<Rightarrow> inventory \<Rightarrow> string \<Rightarrow> string \<times> (string \<rightharpoonup> string) \<Rightarrow> unit prog" where
  "forward_record fd hosts domain = (\<lambda>(record_name, data).
     and_then (getitem data ''type'') (\<lambda>t.
       if t = ''ansible_host_alias'' then
         and_then (getitem data ''target'') (\<lambda>target.
         and_then (getitem (map_of hosts) target) (\<lambda>hostdata.
         and_then (getitem hostdata ''ownip'') (\<lambda>ownip.
         and_then (write_entry fd record_name ''A'' ownip None) (\<lambda>u.
         and_then (getitem hostdata ''ownip6'') (\<lambda>ownip6.
         write_entry fd record_name ''AAAA'' ownip6 None)))))
       else if t = ''ansible_host_record'' then
         and_then (getitem data ''ip4'') (\<lambda>ip4.
         and_then (write_entry fd record_name ''A'' ip4 (Some domain)) (\<lambda>u.
         and_then (getitem data ''ip6'') (\<lambda>ip6.
         write_entry fd record_name ''AAAA'' ip6 (Some domain))))
       else
         and_then (getitem data ''target'') (\<lambda>target.
         write_entry fd record_name t target None)))"

definition host_record :: "string \<Rightarrow> inventory \<Rightarrow> string \<Rightarrow> string \<Rightarrow> unit prog" where
  "host_record fd hosts domain router =
     and_then (getitem (map_of hosts) router) (\<lambda>hostdata.
     and_then (getitem hostdata ''shortname'') (\<lambda>shortname.
     and_then (getitem hostdata ''ownip'') (\<lambda>ownip.
     and_then (write_entry fd shortname ''A'' ownip (Some domain)) (\<lambda>u.
     and_then (getitem hostdata ''shortname'') (\<lambda>shortname'.
     and_then (getitem hostdata ''ownip6'') (\<lambda>ownip6.
     write_entry fd shortname' ''AAAA'' ownip6 (Some domain)))))))"

definition write_forward_zone ::
  "config \<Rightarrow> inventory \<Rightarrow> string \<Rightarrow> (string \<times> (string \<rightharpoonup> string)) list \<Rightarrow> unit prog" where
  "write_forward_zone cfg hosts domain records =
     and_then (get_zone_file cfg domain) (\<lambda>fd.
     and_then (for_each (forward_record fd hosts domain) records) (\<lambda>u.
     if domain = dns_domain cfg
     then for_each (host_record fd hosts domain) (map fst hosts)
     else return ()))"

text \<open>
  \<^verbatim>\<open>_write_ptr_zone(zonename, ipnet)\<close>: one PTR line for every entry of the PTR index
  whose address is in the network, in the order of the index.
\<close>

definition write_ptr_zone :: "config \<Rightarrow> string \<Rightarrow> ipnetwork \<Rightarrow> unit prog" where
  "write_ptr_zone cfg zonename ipnet =
     and_then (get_zone_file cfg zonename) (\<lambda>fd s.
       for_each (\<lambda>(ipaddr, record).
           if contains ipnet ipaddr
           then and_then (lift (reverse_pointer ipaddr)) (\<lambda>rp.
                  write_entry fd rp ''PTR''
                    (if \<not> endswith_dot record then record @ ''.'' else record) None)
           else return ())
         (ptr_records s) s)"

text \<open>
  The body of the loop of \<^verbatim>\<open>write_ptr4_zone\<close> over \<^verbatim>\<open>ipnet.hosts()\<close>: an address with
  an entry in the PTR index (and a name that is not empty) gets a PTR line in the
  delegated zone and a CNAME line in the classful zone.
\<close>

definition delegate_host ::
  "string \<Rightarrow> string \<Rightarrow> string \<Rightarrow> ipnetwork \<Rightarrow> ipaddress \<Rightarrow> unit prog" where
  "delegate_host fd classful_fd classful_zonename ipnet ipaddr s =
     (case map_of (ptr_records s) ipaddr of
        None \<Rightarrow> (Inr (), s)
      | Some record \<Rightarrow>
          if record = [] then (Inr (), s)
          else
            and_then (lift (reverse_pointer ipaddr)) (\<lambda>rp.
              let relevant_octets =
                    slice_to rp (int (length rp) - int (length classful_zonename) - 1)
              in
              and_then (write_entry fd relevant_octets ''PTR''
                          (if \<not> endswith_dot record then record @ ''.'' else record) None) (\<lambda>u.
              and_then (lift (network_reverse_pointer ipnet)) (\<lambda>net_rp.
              write_entry classful_fd relevant_octets ''CNAME''
                (relevant_octets @ ''.'' @ net_rp @ ''.'') None))) s)"

text \<open>\<^verbatim>\<open>write_ptr4_zone(netblock)\<close>\<close>

definition write_ptr4_zone :: "config \<Rightarrow> string \<Rightarrow> unit prog" where
  "write_ptr4_zone cfg netblock =
     and_then (lift (IPv4Network_str netblock)) (\<lambda>ipnet.
       if prefixlen ipnet mod 8 = 0 then
         and_then (lift (reverse_pointer (network_address ipnet))) (\<lambda>rp.
         write_ptr_zone cfg (lstrip ''0.'' rp) ipnet)
       else
         and_then (lift (network_reverse_pointer ipnet)) (\<lambda>zonename.
         and_then (get_zone_file cfg zonename) (\<lambda>fd.
         let nearest_classful_prefixlen = (prefixlen ipnet div 8) * 8 in
         if \<not> prefixlen ipnet > nearest_classful_prefixlen then raise AssertionError
         else
           and_then (lift (supernet ipnet nearest_classful_prefixlen)) (\<lambda>nearest_classful_net.
           and_then (lift (reverse_pointer (network_address nearest_classful_net))) (\<lambda>rp.
           let classful_zonename = lstrip ''0.'' rp in
           and_then (get_zone_file cfg classful_zonename) (\<lambda>classful_fd.
           for_each (delegate_host fd classful_fd classful_zonename ipnet)
             (network_hosts ipnet)))))))"

text \<open>\<^verbatim>\<open>write_ptr6_zone(netblock)\<close>\<close>

definition write_ptr6_zone :: "config \<Rightarrow> string \<Rightarrow> unit prog" where
  "write_ptr6_zone cfg netblock =
     and_then (lift (IPv6Network_str netblock)) (\<lambda>ipnet.
     and_then (lift (reverse_pointer (network_address ipnet))) (\<lambda>rp.
     write_ptr_zone cfg (lstrip ''0.'' rp) ipnet))"

text \<open>\<^verbatim>\<open>write_named_conf()\<close>: the options, then one stanza for every entry of the registry.\<close>

definition options_stanza :: "config \<Rightarrow> string" where
  "options_stanza cfg =
     nl @ ''options {'' @ nl @
     ''    directory '' @ dquote @ dns_zones_dir cfg @ dquote @ '';'' @ nl @
     ''};'' @ nl"

definition zone_stanza :: "string \<times> string \<Rightarrow> string" where
  "zone_stanza = (\<lambda>(zone, fname).
     nl @ ''zone '' @ dquote @ zone @ dquote @ '' {'' @ nl @
     ''    file '' @ dquote @ fname @ dquote @ '';'' @ nl @
     ''};'' @ nl)"

definition named_conf_path :: string where
  "named_conf_path = ''global-config/named.conf''"

definition write_named_conf :: "config \<Rightarrow> unit prog" where
  "write_named_conf cfg s =
     (let s1 = open_w named_conf_path s;
          s2 = fd_write named_conf_path (options_stanza cfg) s1
      in for_each (\<lambda>entry s'. (Inr (), fd_write named_conf_path (zone_stanza entry) s'))
           (namedconf_entries s2) s2)"

text \<open>
  \<^verbatim>\<open>main()\<close> after the configuration is loaded: the forward zones, then the reverse
  zones, then the registration file.
\<close>

definition main ::
  "config \<Rightarrow> inventory \<Rightarrow> (string \<times> (string \<times> (string \<rightharpoonup> string)) list) list \<Rightarrow>
   string list \<Rightarrow> string list \<Rightarrow> unit prog" where
  "main cfg hosts dns_records ownnets4 ownnets6 =
     and_then (for_each (\<lambda>(domain, records). write_forward_zone cfg hosts domain records)
                 dns_records) (\<lambda>u.
     and_then (for_each (write_ptr4_zone cfg) ownnets4) (\<lambda>u.
     and_then (for_each (write_ptr6_zone cfg) ownnets6) (\<lambda>u.
     write_named_conf cfg)))"

text \<open>The state at the start of a run: both dictionaries empty.\<close>

definition initial_state :: "(string \<rightharpoonup> string list) \<Rightarrow> state" where
  "initial_state fs = \<lparr>ptr_records = [], namedconf_entries = [], files = fs\<rparr>"

section \<open>Notions used in the statements\<close>

text \<open>The keys of the PTR index are pairwise different.\<close>

definition keys_distinct :: "state \<Rightarrow> bool" where
  "keys_distinct s = distinct (map fst (ptr_records s))"

text \<open>A configuration for the concrete scenarios.\<close>

definition example_config :: config where
  "example_config =
     \<lparr>sys_argv0 = ''scripts/make-dns-records.py'', out_dir = ''global-config/dns-zones/'',
      dns_ttl = ''3600'', dns_nameserver_prefix = ''ns1'', dns_domain = ''dn42'',
      dns_zones_dir = ''/etc/bind/zones''\<rparr>"

text \<open>The zone names of the registry are pairwise different.\<close>

definition zones_distinct :: "state \<Rightarrow> bool" where
  "zones_distinct s = distinct (map fst (namedconf_entries s))"

text \<open>The file name \<^verbatim>\<open>get_zone_file\<close> gives a zone, and the path it opens.\<close>

definition zone_fname :: "string \<Rightarrow> string" where
  "zone_fname zonename = replace_char CHR ''/'' CHR ''_'' zonename @ ''.zone''"

definition zone_path :: "config \<Rightarrow> string \<Rightarrow> string" where
  "zone_path cfg zonename = path_join (out_dir cfg) (zone_fname zonename)"

text \<open>The name a PTR record points to: \<^verbatim>\<open>record\<close> with a final dot.\<close>

definition dotted :: "string \<Rightarrow> string" where
  "dotted record = (if \<not> endswith_dot record then record @ ''.'' else record)"

text \<open>The reverse pointer of an address where it has one.\<close>

definition pointer_name :: "ipaddress \<Rightarrow> string" where
  "pointer_name ipaddr = (case reverse_pointer ipaddr of Inr rp \<Rightarrow> rp | Inl e \<Rightarrow> [])"

text \<open>The line \<^verbatim>\<open>_write_ptr_zone\<close> writes for an entry of the PTR index.\<close>

definition ptr_line :: "ipaddress \<times> string \<Rightarrow> string" where
  "ptr_line = (\<lambda>(ipaddr, record). entry_line (pointer_name ipaddr) ''PTR'' (dotted record))"

text \<open>
  An address without scope id: every IPv4 address, and an IPv6 address whose scope id is
  absent (or empty). These are the addresses that have a reverse pointer.
\<close>

definition unscoped :: "ipaddress \<Rightarrow> bool" where
  "unscoped a = (case a of IPv4Address ip \<Rightarrow> True
                 | IPv6Address ip scope_id \<Rightarrow> scope_id = None \<or> scope_id = Some [])"

text \<open>
  \<^verbatim>\<open>relevant_octets\<close> of \<^verbatim>\<open>write_ptr4_zone\<close>: the reverse pointer of the address without
  the classful zone name and the dot before it.
\<close>

definition relevant_octets :: "string \<Rightarrow> ipaddress \<Rightarrow> string" where
  "relevant_octets classful_zonename ipaddr =
     slice_to (pointer_name ipaddr)
       (int (length (pointer_name ipaddr)) - int (length classful_zonename) - 1)"

text \<open>
  The owner names and targets that the loop of \<^verbatim>\<open>write_ptr4_zone\<close> writes for a list of
  addresses: one pair for every address that has a name in the PTR index.
\<close>

definition delegated_entries ::
  "string \<Rightarrow> (ipaddress \<times> string) list \<Rightarrow> ipaddress list \<Rightarrow> (string \<times> string) list" where
  "delegated_entries classful_zonename index ips =
     concat (map (\<lambda>ipaddr. case map_of index ipaddr of
                               None \<Rightarrow> []
                             | Some record \<Rightarrow>
                                 if record = [] then []
                                 else [(relevant_octets classful_zonename ipaddr, dotted record)])
                 ips)"

text \<open>
  The PTR line of the delegated zone and the CNAME line of the classful zone for such a
  pair.
\<close>

definition delegated_ptr_line :: "string \<times> string \<Rightarrow> string" where
  "delegated_ptr_line = (\<lambda>(owner, target). entry_line owner ''PTR'' target)"

definition delegation_cname_line :: "string \<Rightarrow> string \<times> string \<Rightarrow> string" where
  "delegation_cname_line zonename =
     (\<lambda>(owner, target). entry_line owner ''CNAME'' (owner @ ''.'' @ zonename @ ''.''))"

text \<open>The characters of the reverse pointer of an IPv4 address.\<close>

definition pointer_chars :: "char set" where
  "pointer_chars = set ''0123456789.in-addr.arpa''"

section \<open>Dictionaries\<close>

lemma map_of_dict_set: "map_of (dict_set k v d) = (map_of d)(k \<mapsto> v)"
  by (induction d) (auto simp: fun_eq_iff)

lemma keys_dict_set:
  "map fst (dict_set k v d) = (if k \<in> fst ` set d then map fst d else map fst d @ [k])"
  by (induction d) force+

lemma distinct_dict_set: "distinct (map fst d) \<Longrightarrow> distinct (map fst (dict_set k v d))"
  by (simp add: keys_dict_set)

section \<open>Writing one record\<close>

lemma write_entry_cases:
  "write_entry fd name rtype data reverse_domain s =
     (let s1 = fd_write fd (entry_line name (upper rtype) data) s in
      case reverse_domain of
        None \<Rightarrow> (Inr (), s1)
      | Some rd \<Rightarrow>
          if upper rtype \<noteq> ''A'' \<and> upper rtype \<noteq> ''AAAA''
          then (Inl (InvalidRecordType
                  (''Cannot add PTR record: expected rtype A or AAAA but got '' @ upper rtype)), s1)
          else (case ip_address data of
                  Inl e \<Rightarrow> (Inl e, s1)
                | Inr ipaddr \<Rightarrow>
                    (Inr (), s1\<lparr>ptr_records := dict_set ipaddr (name @ ''.'' @ rd) (ptr_records s)\<rparr>)))"
  by (auto simp: write_entry_def Let_def fd_write_def split: option.splits sum.splits)

lemma ip_address_error: "ip_address data = Inl e \<Longrightarrow> e = AddressParseError"
  by (auto simp: ip_address_def split: option.splits)

lemmas upper_eval = upper_def upper_char_def upper_table_def

text \<open>
  C10. \<^verbatim>\<open>_write_entry\<close> writes the line \<^verbatim>\<open><name> IN <TYPE> <data>\<close> before it checks the
  record type and parses the address. So whenever the call fails, with the error of a
  wrong record type or of an address that does not parse, the state it leaves is the
  state before the call with that line appended to the zone file: the failure does not
  undo the write.
\<close>

theorem write_entry_line_before_failure:
  "write_entry fd name rtype data reverse_domain s = (Inl e, s') \<Longrightarrow>
     s' = fd_write fd (entry_line name (upper rtype) data) s \<and>
     files s' fd =
       Some ((case files s fd of None \<Rightarrow> [] | Some ws \<Rightarrow> ws) @ [entry_line name (upper rtype) data]) \<and>
     (e = AddressParseError \<or>
      e = InvalidRecordType
            (''Cannot add PTR record: expected rtype A or AAAA but got '' @ upper rtype))"
  by (auto simp: write_entry_cases Let_def fd_write_def dest: ip_address_error
      split: option.splits sum.splits if_splits)

theorem write_entry_line_before_failure_witness:
  "fst (write_entry ''out/example.dn42.zone'' ''www'' ''cname'' ''gw'' (Some ''example.dn42'')
          (initial_state [''out/example.dn42.zone'' \<mapsto> [''header'']]))
     = Inl (InvalidRecordType ''Cannot add PTR record: expected rtype A or AAAA but got CNAME'') \<and>
   files (snd (write_entry ''out/example.dn42.zone'' ''www'' ''cname'' ''gw'' (Some ''example.dn42'')
                 (initial_state [''out/example.dn42.zone'' \<mapsto> [''header'']])))
     ''out/example.dn42.zone''
     = Some [''header'', ''www IN CNAME gw\<newline>'']"
proof -
  let ?s = "initial_state [''out/example.dn42.zone'' \<mapsto> [''header'']]"
  let ?r = "write_entry ''out/example.dn42.zone'' ''www'' ''cname'' ''gw'' (Some ''example.dn42'') ?s"
  have h: "?r = (Inl (InvalidRecordType
                   ''Cannot add PTR record: expected rtype A or AAAA but got CNAME''), snd ?r)"
    by (simp add: write_entry_cases Let_def upper_eval)
  have "files (snd ?r) ''out/example.dn42.zone'' =
          Some ((case files ?s ''out/example.dn42.zone'' of None \<Rightarrow> [] | Some ws \<Rightarrow> ws) @
                [entry_line ''www'' (upper ''cname'') ''gw''])"
    using write_entry_line_before_failure [OF h] by blast
  then have "files (snd ?r) ''out/example.dn42.zone'' = Some [''header'', ''www IN CNAME gw\<newline>'']"
    by (simp add: initial_state_def entry_line_def nl_def upper_eval)
  with h show ?thesis by (metis fst_conv)
qed

section \<open>What every statement of the script preserves\<close>

lemma and_then_pres:
  assumes "\<And>s. P s \<Longrightarrow> P (snd (m s))" and "\<And>x s. P s \<Longrightarrow> P (snd (f x s))" and "P s"
  shows "P (snd (and_then m f s))"
proof (cases "m s")
  case (Pair r s')
  with assms(1) [OF assms(3)] have "P s'" by simp
  with Pair assms(2) show ?thesis
    by (cases r) (simp_all add: and_then_def)
qed

lemma for_each_pres:
  assumes "\<And>x s. P s \<Longrightarrow> P (snd (body x s))" and "P s"
  shows "P (snd (for_each body xs s))"
  using assms(2)
proof (induction xs arbitrary: s)
  case Nil
  then show ?case by simp
next
  case (Cons x xs)
  from assms(1) [OF Cons.prems] have "P (snd (body x s))" .
  with Cons.IH show ?case
    by (cases "body x s") (auto split: sum.splits)
qed

lemma lift_pres: "P s \<Longrightarrow> P (snd (lift r s))"
  by (simp add: lift_def)

lemma return_pres: "P s \<Longrightarrow> P (snd (return x s))"
  by (simp add: return_def)

lemma raise_pres: "P s \<Longrightarrow> P (snd (raise e s))"
  by (simp add: raise_def)

lemma getitem_pres: "P s \<Longrightarrow> P (snd (getitem d k s))"
  by (simp add: getitem_def return_def raise_def split: option.splits)

section \<open>The PTR index keeps one entry for an address\<close>

lemmas distinct_intros =
  and_then_pres [where P = keys_distinct] for_each_pres [where P = keys_distinct]
  lift_pres [where P = keys_distinct] return_pres [where P = keys_distinct]
  raise_pres [where P = keys_distinct] getitem_pres [where P = keys_distinct]

lemma write_entry_distinct:
  "keys_distinct s \<Longrightarrow> keys_distinct (snd (write_entry fd name rtype data rd s))"
  by (auto simp: keys_distinct_def write_entry_cases Let_def fd_write_def distinct_dict_set
      split: option.splits sum.splits)

lemma get_zone_file_distinct: "keys_distinct s \<Longrightarrow> keys_distinct (snd (get_zone_file cfg z s))"
  by (simp add: keys_distinct_def get_zone_file_def Let_def fd_write_def open_w_def)

lemma forward_record_distinct:
  "keys_distinct s \<Longrightarrow> keys_distinct (snd (forward_record fd hosts domain spec s))"
  unfolding forward_record_def
  by (cases spec) (auto intro!: distinct_intros write_entry_distinct)

lemma host_record_distinct:
  "keys_distinct s \<Longrightarrow> keys_distinct (snd (host_record fd hosts domain router s))"
  unfolding host_record_def
  by (intro distinct_intros write_entry_distinct)

lemma write_forward_zone_distinct:
  "keys_distinct s \<Longrightarrow> keys_distinct (snd (write_forward_zone cfg hosts domain records s))"
  unfolding write_forward_zone_def
  by (auto intro!: distinct_intros get_zone_file_distinct forward_record_distinct
        host_record_distinct)

lemma write_ptr_zone_distinct:
  "keys_distinct s \<Longrightarrow> keys_distinct (snd (write_ptr_zone cfg z ipnet s))"
  unfolding write_ptr_zone_def
  by (auto intro!: distinct_intros get_zone_file_distinct write_entry_distinct split: prod.splits)

lemma delegate_host_distinct:
  "keys_distinct s \<Longrightarrow> keys_distinct (snd (delegate_host fd cfd cz ipnet ipaddr s))"
  unfolding delegate_host_def
  by (auto simp: Let_def intro!: distinct_intros write_entry_distinct split: option.splits)

lemma write_ptr4_zone_distinct:
  "keys_distinct s \<Longrightarrow> keys_distinct (snd (write_ptr4_zone cfg netblock s))"
  unfolding write_ptr4_zone_def
  by (auto simp: Let_def intro!: distinct_intros get_zone_file_distinct write_ptr_zone_distinct
        delegate_host_distinct)

lemma write_ptr6_zone_distinct:
  "keys_distinct s \<Longrightarrow> keys_distinct (snd (write_ptr6_zone cfg netblock s))"
  unfolding write_ptr6_zone_def
  by (auto intro!: distinct_intros write_ptr_zone_distinct)

lemma write_named_conf_distinct:
  "keys_distinct s \<Longrightarrow> keys_distinct (snd (write_named_conf cfg s))"
  unfolding write_named_conf_def Let_def
  by (rule for_each_pres [where P = keys_distinct])
     (simp_all add: keys_distinct_def fd_write_def open_w_def)

lemma main_distinct:
  "keys_distinct s \<Longrightarrow> keys_distinct (snd (main cfg hosts dns_records ownnets4 ownnets6 s))"
  unfolding main_def
  by (auto intro!: distinct_intros write_forward_zone_distinct write_ptr4_zone_distinct
        write_ptr6_zone_distinct write_named_conf_distinct split: prod.splits)

section \<open>Addresses of the scenarios\<close>

lemma ip_address_gw4: "ip_address ''172.20.229.1'' = Inr (IPv4Address 0xAC14E501)"
  by code_simp

lemma ip_address_gw6:
  "ip_address ''fd00::1'' = Inr (IPv6Address 0xfd000000000000000000000000000001 None)"
  by code_simp

lemma ip_address_bad_octet: "ip_address ''172.20.229.256'' = Inl AddressParseError"
  by code_simp

section \<open>Loops and sequencing\<close>

lemma for_each_append:
  "for_each body (xs @ ys) s =
     (case for_each body xs s of (Inl e, s') \<Rightarrow> (Inl e, s') | (Inr u, s') \<Rightarrow> for_each body ys s')"
  by (induction xs arbitrary: s) (auto split: prod.splits sum.splits)

lemma and_then_Inr:
  "and_then m f s = (Inr y, s'') \<Longrightarrow> \<exists>x s'. m s = (Inr x, s') \<and> f x s' = (Inr y, s'')"
  by (auto simp: and_then_def split: prod.splits sum.splits)

section \<open>Strings\<close>

lemma digit_char_decimal: "0 \<le> d \<Longrightarrow> d < 10 \<Longrightarrow> digit_char d \<in> set ''0123456789''"
proof -
  assume "0 \<le> d" "d < 10"
  then have "d = 0 \<or> d = 1 \<or> d = 2 \<or> d = 3 \<or> d = 4 \<or> d = 5 \<or> d = 6 \<or> d = 7 \<or> d = 8 \<or> d = 9"
    by arith
  then show ?thesis
    by (auto simp: digit_char_def)
qed

lemma str_int_digits: "0 \<le> n \<Longrightarrow> set (str_int n) \<subseteq> set ''0123456789''"
proof (induction n rule: str_int.induct)
  case (1 n)
  show ?case
  proof (cases "n < 10")
    case True
    with "1.prems" digit_char_decimal [of n] show ?thesis
      by (subst str_int.simps) simp
  next
    case False
    with "1.prems" have "0 \<le> n div 10" "0 \<le> n mod 10" "n mod 10 < 10"
      by simp_all
    with "1.IH" False digit_char_decimal [of "n mod 10"] show ?thesis
      by (subst str_int.simps) simp
  qed
qed

lemma str_int_nonempty: "str_int n \<noteq> []"
  by (subst str_int.simps) simp

lemma str_int_0: "str_int 0 = ''0''"
  by (subst str_int.simps) (simp add: digit_char_def)

lemma digit_char_nonzero:
  "0 < d \<Longrightarrow> d < 10 \<Longrightarrow> digit_char d \<in> set ''123456789''"
proof -
  assume "0 < d" "d < 10"
  then have "d = 1 \<or> d = 2 \<or> d = 3 \<or> d = 4 \<or> d = 5 \<or> d = 6 \<or> d = 7 \<or> d = 8 \<or> d = 9"
    by arith
  then show ?thesis
    by (auto simp: digit_char_def)
qed

lemma str_int_pos_hd: "0 < n \<Longrightarrow> hd (str_int n) \<in> set ''123456789''"
proof (induction n rule: str_int.induct)
  case (1 n)
  show ?case
  proof (cases "n < 10")
    case True
    with "1.prems" digit_char_nonzero [of n] show ?thesis
      by (subst str_int.simps) simp
  next
    case False
    with "1.prems" have "0 < n div 10"
      by simp
    with "1.IH" False show ?thesis
      by (subst str_int.simps) (simp add: str_int_nonempty)
  qed
qed

lemma dot_not_in_str_int: "0 \<le> n \<Longrightarrow> CHR ''.'' \<notin> set (str_int n)"
  using str_int_digits [of n] by auto

lemma set_join_subset: "set (join sep xs) \<subseteq> set sep \<union> (\<Union>w \<in> set xs. set w)"
  by (induction sep xs rule: join.induct) auto

lemma join_member: "w \<in> set xs \<Longrightarrow> x \<in> set w \<Longrightarrow> x \<in> set (join sep xs)"
  by (induction sep xs rule: join.induct) auto

lemma split_nonempty: "split c s \<noteq> []"
  by (induction s) (auto split: list.splits)

lemma set_split_subset: "w \<in> set (split c s) \<Longrightarrow> set w \<subseteq> set s"
proof (induction s arbitrary: w)
  case Nil
  then show ?case by simp
next
  case (Cons a s)
  then show ?case
    by (cases "split c s") (fastforce split: if_splits)+
qed

lemma split_member: "x \<in> set s \<Longrightarrow> x \<noteq> c \<Longrightarrow> \<exists>w \<in> set (split c s). x \<in> set w"
proof (induction s)
  case Nil
  then show ?case by simp
next
  case (Cons a s)
  then show ?case
    using split_nonempty [of c s]
    by (cases "split c s") (auto split: if_splits)
qed

lemma split_no_sep: "c \<notin> set s \<Longrightarrow> split c s = [s]"
  by (induction s) auto

lemma split_append_sep: "c \<notin> set a \<Longrightarrow> split c (a @ c # rest) = a # split c rest"
  by (induction a) auto

lemma lstrip_subset: "set (lstrip chars s) \<subseteq> set s"
  by (auto simp: lstrip_def dest: set_dropWhileD)

lemma lstrip_zero_dot: "lstrip ''0.'' (''0'' @ ''.'' @ x) = lstrip ''0.'' x"
  by (simp add: lstrip_def)

lemma lstrip_stop: "x \<noteq> [] \<Longrightarrow> hd x \<notin> set ''0.'' \<Longrightarrow> lstrip ''0.'' x = x"
  by (cases x) (simp_all add: lstrip_def)

lemma nonzero_digit_kept: "c \<in> set ''123456789'' \<Longrightarrow> c \<notin> set ''0.''"
  by auto

lemma zero_octets:
  "concat (replicate 4 ''0.'') = ''0.0.0.0.''" "concat (replicate 3 ''0.'') = ''0.0.0.''"
  "concat (replicate 2 ''0.'') = ''0.0.''" "concat (replicate 1 ''0.'') = ''0.''"
  by (simp_all add: numeral_eq_Suc)

lemma upper_PTR: "upper ''PTR'' = ''PTR''"
  by (simp add: upper_eval)

lemma upper_CNAME: "upper ''CNAME'' = ''CNAME''"
  by (simp add: upper_eval)

section \<open>Networks and reverse pointers\<close>

lemma bit_netmask4: "bit (netmask4 p) i \<longleftrightarrow> i < 32 \<and> 32 \<le> p + i"
  by (auto simp: netmask4_def bit_simps)

lemma supernet_host_bits:
  "k \<le> p \<Longrightarrow> (n AND push_bit (p - k) (netmask4 p)) AND netmask4 k = n AND push_bit (p - k) (netmask4 p)"
  by (rule bit_eqI) (auto simp: bit_simps bit_netmask4)

lemma supernet_v4:
  "0 < p \<Longrightarrow> k \<le> p \<Longrightarrow>
   supernet (IPv4Network n p) k = Inr (IPv4Network (n AND push_bit (p - k) (netmask4 p)) k)"
  by (simp add: supernet_def prefixlen_def Let_def supernet_host_bits)

lemma host_bits_netmask4: "n AND netmask4 p = n \<Longrightarrow> bit n j \<Longrightarrow> 32 \<le> p + j"
proof -
  assume a: "n AND netmask4 p = n" and b: "bit n j"
  from b have "bit (n AND netmask4 p) j"
    by (simp only: a)
  then show ?thesis
    by (simp add: bit_simps bit_netmask4)
qed

lemma host_octet_zero:
  assumes "n AND netmask4 p = n" and "k + 8 + p \<le> 32"
  shows "drop_bit k n AND (0xFF :: 32 word) = 0"
proof (rule bit_eqI)
  fix i
  have m: "(0xFF :: 32 word) = mask 8"
    by (simp add: mask_eq_exp_minus_1)
  have "\<not> (bit n (k + i) \<and> i < 8)"
    using host_bits_netmask4 [OF assms(1), of "k + i"] assms(2) by auto
  then show "bit (drop_bit k n AND 0xFF) i = bit (0 :: 32 word) i"
    unfolding m by (auto simp: bit_simps)
qed

lemma uint_octet_zero: "(uint (b :: 32 word) = 0) = (b = 0)"
  by (simp add: uint_0_iff)

lemma prefix_from_prefix_string_le: "prefix_from_prefix_string m str = Some p \<Longrightarrow> p \<le> m"
  by (auto simp: prefix_from_prefix_string_def Let_def split: if_splits)

lemma prefix_from_ip_int_le: "prefix_from_ip_int x = Some p \<Longrightarrow> p \<le> 32"
  by (auto simp: prefix_from_ip_int_def Let_def split: if_splits)

lemma make_netmask4_le: "make_netmask4 m = Some p \<Longrightarrow> p \<le> 32"
  by (auto simp: make_netmask4_def prefix_from_ip_string_def
      dest: prefix_from_prefix_string_le prefix_from_ip_int_le split: option.splits)

lemma IPv4Network_str_Inr:
  "IPv4Network_str netblock = Inr ipnet \<Longrightarrow>
     \<exists>n p. ipnet = IPv4Network n p \<and> p \<le> 32 \<and> n AND netmask4 p = n"
  by (auto simp: IPv4Network_str_def split: option.splits ipaddress.splits if_splits)
     (erule make_netmask4_le)

lemma unscoped_pointer: "unscoped a \<Longrightarrow> reverse_pointer a = Inr (pointer_name a)"
  by (cases a) (auto simp: unscoped_def pointer_name_def reverse_pointer_def)

lemma hosts_v4_unscoped: "ip \<in> set (network_hosts (IPv4Network n p)) \<Longrightarrow> unscoped ip"
  by (auto simp: network_hosts_def Let_def unscoped_def split: if_splits)

lemma digits_pointer_chars: "set ''0123456789'' \<subseteq> pointer_chars"
  by (simp add: pointer_chars_def)

lemma dot_pointer_chars: "set ''.'' \<subseteq> pointer_chars"
  by (simp add: pointer_chars_def)

lemma suffix_pointer_chars: "set ''.in-addr.arpa'' \<subseteq> pointer_chars"
  by (simp add: pointer_chars_def)

lemma not_pointer_chars: "CHR ''_'' \<notin> pointer_chars" "CHR ''/'' \<notin> pointer_chars"
  by (simp_all add: pointer_chars_def)

lemma v4_string_chars: "set (v4_string_from_ip_int n) \<subseteq> pointer_chars"
proof -
  have "set (str_int (uint w)) \<subseteq> pointer_chars" for w :: "32 word"
    using str_int_digits [of "uint w"] digits_pointer_chars by auto
  then have "(\<Union>w \<in> set (map str_int (to_bytes4 n)). set w) \<subseteq> pointer_chars"
    by (auto simp: to_bytes4_def)
  with set_join_subset [of "''.''" "map str_int (to_bytes4 n)"] dot_pointer_chars
  show ?thesis
    unfolding v4_string_from_ip_int_def by blast
qed

lemma pointer_v4_chars: "set (pointer_name (IPv4Address n)) \<subseteq> pointer_chars"
proof -
  let ?parts = "rev (split CHR ''.'' (v4_string_from_ip_int n))"
  have "(\<Union>w \<in> set ?parts. set w) \<subseteq> pointer_chars"
    using set_split_subset [of _ "CHR ''.''" "v4_string_from_ip_int n"] v4_string_chars [of n]
    by auto
  with set_join_subset [of "''.''" ?parts] dot_pointer_chars
  have "set (join ''.'' ?parts) \<subseteq> pointer_chars"
    by blast
  moreover have "pointer_name (IPv4Address n) = join ''.'' ?parts @ ''.in-addr.arpa''"
    by (simp add: pointer_name_def reverse_pointer_def)
  ultimately show ?thesis
    using suffix_pointer_chars by (simp only: set_append) blast
qed

lemma network_pointer_v4:
  "\<exists>z. network_reverse_pointer (IPv4Network n p) = Inr z \<and> CHR ''/'' \<in> set z"
proof -
  let ?s = "v4_string_from_ip_int n @ ''/'' @ str_int (int p)"
  have "CHR ''/'' \<in> set ?s" by simp
  then obtain w where "w \<in> set (split CHR ''.'' ?s)" "CHR ''/'' \<in> set w"
    using split_member [of "CHR ''/''" ?s "CHR ''.''"] by auto
  then have "CHR ''/'' \<in> set (join ''.'' (rev (split CHR ''.'' ?s)))"
    using join_member [of w "rev (split CHR ''.'' ?s)" "CHR ''/''" "''.''"] by simp
  then show ?thesis
    by (simp add: network_reverse_pointer_def)
qed

lemma pointer_name_v4:
  "pointer_name (IPv4Address n) =
     str_int (uint (drop_bit 0 n AND 0xFF)) @ ''.'' @ str_int (uint (drop_bit 8 n AND 0xFF)) @ ''.'' @
     str_int (uint (drop_bit 16 n AND 0xFF)) @ ''.'' @ str_int (uint (drop_bit 24 n AND 0xFF)) @
     ''.in-addr.arpa''"
proof -
  let ?b1 = "str_int (uint (drop_bit 24 n AND 0xFF))"
  let ?b2 = "str_int (uint (drop_bit 16 n AND 0xFF))"
  let ?b3 = "str_int (uint (drop_bit 8 n AND 0xFF))"
  let ?b4 = "str_int (uint (drop_bit 0 n AND 0xFF))"
  have d: "CHR ''.'' \<notin> set ?b1" "CHR ''.'' \<notin> set ?b2" "CHR ''.'' \<notin> set ?b3" "CHR ''.'' \<notin> set ?b4"
    by (rule dot_not_in_str_int, simp)+
  have "v4_string_from_ip_int n = ?b1 @ CHR ''.'' # ?b2 @ CHR ''.'' # ?b3 @ CHR ''.'' # ?b4"
    by (simp add: v4_string_from_ip_int_def to_bytes4_def)
  then have "split CHR ''.'' (v4_string_from_ip_int n) = [?b1, ?b2, ?b3, ?b4]"
    using d by (simp add: split_append_sep split_no_sep)
  then show ?thesis
    by (simp add: pointer_name_def reverse_pointer_def)
qed

lemma octet_text_kept:
  "b \<noteq> 0 \<Longrightarrow> lstrip ''0.'' (str_int (uint (b :: 32 word)) @ x) = str_int (uint b) @ x \<and>
     hd (str_int (uint b) @ x) \<notin> set ''0.''"
proof -
  assume "b \<noteq> 0"
  then have "uint b \<noteq> 0"
    by (simp add: uint_0_iff)
  moreover have "0 \<le> uint b"
    by simp
  ultimately have "0 < uint b"
    by arith
  then have "hd (str_int (uint b)) \<in> set ''123456789''"
    by (rule str_int_pos_hd)
  then have h: "hd (str_int (uint b) @ x) \<notin> set ''0.''"
    using nonzero_digit_kept by (simp add: str_int_nonempty)
  then show ?thesis
    using lstrip_stop [of "str_int (uint b) @ x"] by (simp add: str_int_nonempty)
qed

lemma aligned_cases: "p \<le> 32 \<Longrightarrow> p mod 8 = 0 \<Longrightarrow> p = 0 \<or> p = 8 \<or> p = 16 \<or> p = 24 \<or> p = (32::nat)"
  by presburger

lemma aligned_zone_name:
  assumes "p \<le> 32" and "p mod 8 = 0" and "n AND netmask4 p = n"
    and "p = 0 \<or> to_bytes4 n ! (p div 8 - 1) \<noteq> 0"
  shows "\<exists>z. pointer_name (IPv4Address n) = concat (replicate ((32 - p) div 8) ''0.'') @ z \<and>
             lstrip ''0.'' (pointer_name (IPv4Address n)) = z \<and> z \<noteq> [] \<and> hd z \<notin> set ''0.''"
proof -
  let ?b0 = "drop_bit 0 n AND (0xFF :: 32 word)"
  let ?b8 = "drop_bit 8 n AND (0xFF :: 32 word)"
  let ?b16 = "drop_bit 16 n AND (0xFF :: 32 word)"
  let ?b24 = "drop_bit 24 n AND (0xFF :: 32 word)"
  note z = host_octet_zero [OF assms(3)]
  from aligned_cases [OF assms(1,2)] consider
    "p = 0" | "p = 8" | "p = 16" | "p = 24" | "p = 32" by blast
  then show ?thesis
  proof cases
    case 1
    with z [of 0] z [of 8] z [of 16] z [of 24]
    have "?b0 = 0" "?b8 = 0" "?b16 = 0" "?b24 = 0" by simp_all
    then have "pointer_name (IPv4Address n) = ''0.0.0.0.in-addr.arpa''"
      by (simp only: pointer_name_v4) (simp add: str_int_0)
    with 1 show ?thesis
      by (simp add: lstrip_def zero_octets)
  next
    case 2
    with z [of 0] z [of 8] z [of 16] have zs: "?b0 = 0" "?b8 = 0" "?b16 = 0" by simp_all
    from 2 assms(4) have nz: "?b24 \<noteq> 0"
      by (simp add: to_bytes4_def uint_octet_zero)
    have pn: "pointer_name (IPv4Address n) =
            ''0.'' @ ''0.'' @ ''0.'' @ (str_int (uint ?b24) @ ''.in-addr.arpa'')"
      using zs by (simp only: pointer_name_v4) (simp add: str_int_0)
    show ?thesis
      using octet_text_kept [OF nz, of "''.in-addr.arpa''"] 2
      by (simp add: pn lstrip_def str_int_nonempty zero_octets)
  next
    case 3
    with z [of 0] z [of 8] have zs: "?b0 = 0" "?b8 = 0" by simp_all
    from 3 assms(4) have nz: "?b16 \<noteq> 0"
      by (simp add: to_bytes4_def uint_octet_zero)
    have pn: "pointer_name (IPv4Address n) =
            ''0.'' @ ''0.'' @ (str_int (uint ?b16) @ ''.'' @ str_int (uint ?b24) @ ''.in-addr.arpa'')"
      using zs by (simp only: pointer_name_v4) (simp add: str_int_0)
    show ?thesis
      using octet_text_kept [OF nz, of "''.'' @ str_int (uint ?b24) @ ''.in-addr.arpa''"] 3
      by (simp add: pn lstrip_def str_int_nonempty zero_octets)
  next
    case 4
    with z [of 0] have zs: "?b0 = 0" by simp
    from 4 assms(4) have nz: "?b8 \<noteq> 0"
      by (simp add: to_bytes4_def uint_octet_zero)
    have pn: "pointer_name (IPv4Address n) =
            ''0.'' @ (str_int (uint ?b8) @ ''.'' @ str_int (uint ?b16) @ ''.'' @
                      str_int (uint ?b24) @ ''.in-addr.arpa'')"
      using zs by (simp only: pointer_name_v4) (simp add: str_int_0)
    show ?thesis
      using octet_text_kept [OF nz, of "''.'' @ str_int (uint ?b16) @ ''.'' @
                      str_int (uint ?b24) @ ''.in-addr.arpa''"] 4
      by (simp add: pn lstrip_def str_int_nonempty zero_octets)
  next
    case 5
    from 5 assms(4) have nz: "?b0 \<noteq> 0"
      by (simp add: to_bytes4_def uint_octet_zero)
    show ?thesis
      using octet_text_kept [OF nz, of "''.'' @ str_int (uint ?b8) @ ''.'' @ str_int (uint ?b16) @ ''.'' @
                      str_int (uint ?b24) @ ''.in-addr.arpa''"] 5
      by (simp add: pointer_name_v4 str_int_nonempty)
  qed
qed

section \<open>Zone files and the registry\<close>

lemma zone_fname_slash: "CHR ''/'' \<in> set z \<Longrightarrow> CHR ''_'' \<in> set (zone_fname z)"
  by (auto simp: zone_fname_def replace_char_def)

lemma zone_fname_no_slash: "CHR ''/'' \<notin> set (zone_fname z)"
  by (auto simp: zone_fname_def replace_char_def)

lemma zone_fname_classful:
  "set z \<subseteq> pointer_chars \<Longrightarrow> CHR ''_'' \<notin> set (zone_fname z)"
  using not_pointer_chars by (auto simp: zone_fname_def replace_char_def)

lemma zone_path_inj: "zone_path cfg z = zone_path cfg z' \<Longrightarrow> zone_fname z = zone_fname z'"
proof -
  have "f \<noteq> [] \<and> hd f = CHR ''/'' \<Longrightarrow> CHR ''/'' \<in> set f" for f
    by (cases f) auto
  then have a: "\<not> (zone_fname y \<noteq> [] \<and> hd (zone_fname y) = CHR ''/'')" for y
    using zone_fname_no_slash [of y] by blast
  assume "zone_path cfg z = zone_path cfg z'"
  then show ?thesis
    using a [of z] a [of z'] by (simp add: zone_path_def path_join_def split: if_splits)
qed

lemma get_zone_file_result:
  "get_zone_file cfg z s =
     (Inr (zone_path cfg z),
      s\<lparr>namedconf_entries := dict_set z (zone_fname z) (namedconf_entries s),
        files := (files s)(zone_path cfg z \<mapsto> [zone_header cfg z])\<rparr>)"
  by (simp add: get_zone_file_def Let_def fd_write_def open_w_def zone_path_def zone_fname_def)

lemma get_zone_file_registry:
  "namedconf_entries (snd (get_zone_file cfg z s)) =
     dict_set z (replace_char CHR ''/'' CHR ''_'' z @ ''.zone'') (namedconf_entries s)"
  by (simp add: get_zone_file_def Let_def fd_write_def open_w_def)

lemma dict_set_map:
  "dict_set z (f z) (map (\<lambda>k. (k, f k)) ks) =
     map (\<lambda>k. (k, f k)) (if z \<in> set ks then ks else ks @ [z])"
  by (induction ks) auto

lemma create_zones_ok:
  "fst (for_each (\<lambda>z. and_then (get_zone_file cfg z) (\<lambda>fd. return ())) zs s) = Inr ()"
  by (induction zs arbitrary: s)
     (auto simp: and_then_def get_zone_file_def Let_def return_def split: prod.splits sum.splits)

lemma create_zones_registry:
  "namedconf_entries (snd (for_each (\<lambda>z. and_then (get_zone_file cfg z) (\<lambda>fd. return ())) zs
                             (initial_state fs))) =
     map (\<lambda>z. (z, replace_char CHR ''/'' CHR ''_'' z @ ''.zone'')) (rev (remdups (rev zs)))"
proof (induction zs rule: rev_induct)
  case Nil
  show ?case by (simp add: initial_state_def)
next
  case (snoc z zs)
  let ?r = "for_each (\<lambda>z. and_then (get_zone_file cfg z) (\<lambda>fd. return ())) zs (initial_state fs)"
  obtain s' where r: "?r = (Inr (), s')"
    using create_zones_ok [of cfg zs "initial_state fs"] by (cases ?r) auto
  have "namedconf_entries (snd (for_each (\<lambda>z. and_then (get_zone_file cfg z) (\<lambda>fd. return ()))
            (zs @ [z]) (initial_state fs))) =
        dict_set z (replace_char CHR ''/'' CHR ''_'' z @ ''.zone'') (namedconf_entries s')"
  proof -
    obtain fd s'' where g: "get_zone_file cfg z s' = (Inr fd, s'')"
      by (simp add: get_zone_file_def Let_def)
    with get_zone_file_registry [of cfg z s'] show ?thesis
      by (simp add: for_each_append r and_then_def return_def)
  qed
  also have "namedconf_entries s' =
      map (\<lambda>z. (z, replace_char CHR ''/'' CHR ''_'' z @ ''.zone'')) (rev (remdups (rev zs)))"
    using snoc.IH r by simp
  finally show ?case
    using dict_set_map [where f = "\<lambda>z. replace_char CHR ''/'' CHR ''_'' z @ ''.zone''"
                          and z = z and ks = "rev (remdups (rev zs))"]
    by simp
qed

lemma write_stanzas:
  "files s p = Some ws \<Longrightarrow>
   for_each (\<lambda>entry s'. (Inr (), fd_write p (g entry) s')) es s =
     (Inr (), s\<lparr>files := (files s)(p \<mapsto> ws @ map g es)\<rparr>)"
proof (induction es arbitrary: s ws)
  case Nil
  then show ?case by (simp add: fun_upd_idem)
next
  case (Cons e es)
  let ?B = "\<lambda>entry s'. (Inr () :: error + unit, fd_write p (g entry) s')"
  let ?s1 = "fd_write p (g e) s"
  have f: "files ?s1 p = Some (ws @ [g e])"
    using Cons.prems by (simp add: fd_write_def)
  have "for_each ?B (e # es) s = for_each ?B es ?s1"
    by simp
  also have "\<dots> = (Inr (), ?s1\<lparr>files := (files ?s1)(p \<mapsto> (ws @ [g e]) @ map g es)\<rparr>)"
    by (rule Cons.IH [OF f])
  also have "?s1\<lparr>files := (files ?s1)(p \<mapsto> (ws @ [g e]) @ map g es)\<rparr> =
             s\<lparr>files := (files s)(p \<mapsto> ws @ map g (e # es))\<rparr>"
    by (simp add: fd_write_def)
  finally show ?case .
qed

lemma write_named_conf_result:
  "write_named_conf cfg s =
     (Inr (), s\<lparr>files := (files s)(named_conf_path \<mapsto>
                  options_stanza cfg # map zone_stanza (namedconf_entries s))\<rparr>)"
proof -
  let ?s2 = "fd_write named_conf_path (options_stanza cfg) (open_w named_conf_path s)"
  have f: "files ?s2 named_conf_path = Some [options_stanza cfg]"
    by (simp add: fd_write_def open_w_def)
  have n: "namedconf_entries ?s2 = namedconf_entries s"
    by (simp add: fd_write_def open_w_def)
  show ?thesis
    unfolding write_named_conf_def Let_def write_stanzas [OF f] n
    by (simp add: fd_write_def open_w_def)
qed

lemma write_entry_plain:
  "write_entry fd name rtype data None s = (Inr (), fd_write fd (entry_line name (upper rtype) data) s)"
  by (simp add: write_entry_cases Let_def)

section \<open>The registry keeps one entry for a zone name\<close>

lemmas zones_intros =
  and_then_pres [where P = zones_distinct] for_each_pres [where P = zones_distinct]
  lift_pres [where P = zones_distinct] return_pres [where P = zones_distinct]
  raise_pres [where P = zones_distinct] getitem_pres [where P = zones_distinct]

lemma write_entry_zones:
  "zones_distinct s \<Longrightarrow> zones_distinct (snd (write_entry fd name rtype data rd s))"
  by (auto simp: zones_distinct_def write_entry_cases Let_def fd_write_def
      split: option.splits sum.splits)

lemma get_zone_file_zones: "zones_distinct s \<Longrightarrow> zones_distinct (snd (get_zone_file cfg z s))"
  by (simp add: zones_distinct_def get_zone_file_registry distinct_dict_set)

lemma forward_record_zones:
  "zones_distinct s \<Longrightarrow> zones_distinct (snd (forward_record fd hosts domain spec s))"
  unfolding forward_record_def
  by (cases spec) (auto intro!: zones_intros write_entry_zones)

lemma host_record_zones:
  "zones_distinct s \<Longrightarrow> zones_distinct (snd (host_record fd hosts domain router s))"
  unfolding host_record_def
  by (intro zones_intros write_entry_zones)

lemma write_forward_zone_zones:
  "zones_distinct s \<Longrightarrow> zones_distinct (snd (write_forward_zone cfg hosts domain records s))"
  unfolding write_forward_zone_def
  by (auto intro!: zones_intros get_zone_file_zones forward_record_zones host_record_zones)

lemma write_ptr_zone_zones:
  "zones_distinct s \<Longrightarrow> zones_distinct (snd (write_ptr_zone cfg z ipnet s))"
  unfolding write_ptr_zone_def
  by (auto intro!: zones_intros get_zone_file_zones write_entry_zones split: prod.splits)

lemma delegate_host_zones:
  "zones_distinct s \<Longrightarrow> zones_distinct (snd (delegate_host fd cfd cz ipnet ipaddr s))"
  unfolding delegate_host_def
  by (auto simp: Let_def intro!: zones_intros write_entry_zones split: option.splits)

lemma write_ptr4_zone_zones:
  "zones_distinct s \<Longrightarrow> zones_distinct (snd (write_ptr4_zone cfg netblock s))"
  unfolding write_ptr4_zone_def
  by (auto simp: Let_def intro!: zones_intros get_zone_file_zones write_ptr_zone_zones
        delegate_host_zones)

lemma write_ptr6_zone_zones:
  "zones_distinct s \<Longrightarrow> zones_distinct (snd (write_ptr6_zone cfg netblock s))"
  unfolding write_ptr6_zone_def
  by (auto intro!: zones_intros write_ptr_zone_zones)

lemma write_named_conf_zones:
  "zones_distinct s \<Longrightarrow> zones_distinct (snd (write_named_conf cfg s))"
  by (simp add: write_named_conf_result zones_distinct_def)

lemma main_zones:
  "zones_distinct s \<Longrightarrow> zones_distinct (snd (main cfg hosts dns_records ownnets4 ownnets6 s))"
  unfolding main_def
  by (auto intro!: zones_intros write_forward_zone_zones write_ptr4_zone_zones
        write_ptr6_zone_zones write_named_conf_zones split: prod.splits)

lemma main_renders_registry:
  assumes "fst (main cfg hosts dns_records ownnets4 ownnets6 s) = Inr ()"
  shows "files (snd (main cfg hosts dns_records ownnets4 ownnets6 s)) named_conf_path =
           Some (options_stanza cfg #
                 map zone_stanza (namedconf_entries (snd (main cfg hosts dns_records ownnets4 ownnets6 s))))"
proof -
  obtain s'' where m: "main cfg hosts dns_records ownnets4 ownnets6 s = (Inr (), s'')"
    using assms by (cases "main cfg hosts dns_records ownnets4 ownnets6 s") auto
  from and_then_Inr [OF m [unfolded main_def]] obtain x1 s1 where
    "and_then (for_each (write_ptr4_zone cfg) ownnets4)
       (\<lambda>u. and_then (for_each (write_ptr6_zone cfg) ownnets6) (\<lambda>u. write_named_conf cfg)) s1 =
     (Inr (), s'')"
    by blast
  from and_then_Inr [OF this] obtain x2 s2 where
    "and_then (for_each (write_ptr6_zone cfg) ownnets6) (\<lambda>u. write_named_conf cfg) s2 = (Inr (), s'')"
    by blast
  from and_then_Inr [OF this] obtain x3 s3 where "write_named_conf cfg s3 = (Inr (), s'')"
    by blast
  then have "s'' = s3\<lparr>files := (files s3)(named_conf_path \<mapsto>
                  options_stanza cfg # map zone_stanza (namedconf_entries s3))\<rparr>"
    by (simp add: write_named_conf_result)
  then show ?thesis
    by (simp add: m)
qed

section \<open>The reverse zones\<close>

lemma ptr_loop:
  assumes "files s fd = Some ws"
    and "\<forall>(ip, r) \<in> set es. contains ipnet ip \<longrightarrow> unscoped ip"
  shows "for_each (\<lambda>(ipaddr, record).
           if contains ipnet ipaddr
           then and_then (lift (reverse_pointer ipaddr)) (\<lambda>rp.
                  write_entry fd rp ''PTR''
                    (if \<not> endswith_dot record then record @ ''.'' else record) None)
           else return ()) es s =
         (Inr (), s\<lparr>files := (files s)(fd \<mapsto> ws @ map ptr_line (filter (\<lambda>(ip, r). contains ipnet ip) es))\<rparr>)"
  using assms
proof (induction es arbitrary: s ws)
  case Nil
  then show ?case by (simp add: fun_upd_idem)
next
  case (Cons e es)
  let ?B = "\<lambda>(ipaddr, record).
           if contains ipnet ipaddr
           then and_then (lift (reverse_pointer ipaddr)) (\<lambda>rp.
                  write_entry fd rp ''PTR''
                    (if \<not> endswith_dot record then record @ ''.'' else record) None)
           else return ()"
  obtain ip r where e: "e = (ip, r)" by (cases e)
  have rest: "\<forall>(ip, r) \<in> set es. contains ipnet ip \<longrightarrow> unscoped ip"
    using Cons.prems by simp
  show ?case
  proof (cases "contains ipnet ip")
    case False
    then have flt: "filter (\<lambda>(ip, r). contains ipnet ip) (e # es) =
                    filter (\<lambda>(ip, r). contains ipnet ip) es"
      by (simp add: e)
    from False have "for_each ?B (e # es) s = for_each ?B es s"
      by (simp add: e return_def)
    also have "\<dots> = (Inr (), s\<lparr>files := (files s)(fd \<mapsto> ws @
         map ptr_line (filter (\<lambda>(ip, r). contains ipnet ip) es))\<rparr>)"
      by (rule Cons.IH [OF Cons.prems(1) rest])
    finally show ?thesis
      unfolding flt .
  next
    case True
    with Cons.prems e have u: "reverse_pointer ip = Inr (pointer_name ip)"
      by (simp add: unscoped_pointer)
    let ?s1 = "fd_write fd (ptr_line (ip, r)) s"
    have f: "files ?s1 fd = Some (ws @ [ptr_line (ip, r)])"
      using Cons.prems by (simp add: fd_write_def)
    have "?B e s = (Inr (), ?s1)"
      using True u
      by (simp add: e and_then_def lift_def write_entry_plain upper_PTR ptr_line_def dotted_def)
    then have "for_each ?B (e # es) s = for_each ?B es ?s1"
      by simp
    also have "\<dots> = (Inr (), ?s1\<lparr>files := (files ?s1)(fd \<mapsto> (ws @ [ptr_line (ip, r)]) @
              map ptr_line (filter (\<lambda>(ip, r). contains ipnet ip) es))\<rparr>)"
      by (rule Cons.IH [OF f rest])
    also have "?s1\<lparr>files := (files ?s1)(fd \<mapsto> (ws @ [ptr_line (ip, r)]) @
              map ptr_line (filter (\<lambda>(ip, r). contains ipnet ip) es))\<rparr> =
          s\<lparr>files := (files s)(fd \<mapsto> ws @
              map ptr_line (filter (\<lambda>(ip, r). contains ipnet ip) (e # es)))\<rparr>"
      using True e by (simp add: fd_write_def)
    finally show ?thesis .
  qed
qed

lemma write_ptr_zone_result:
  assumes "\<forall>(ip, r) \<in> set (ptr_records s). contains ipnet ip \<longrightarrow> unscoped ip"
  shows "write_ptr_zone cfg z ipnet s =
     (Inr (),
      s\<lparr>namedconf_entries := dict_set z (zone_fname z) (namedconf_entries s),
        files := (files s)(zone_path cfg z \<mapsto>
           zone_header cfg z # map ptr_line (filter (\<lambda>(ip, r). contains ipnet ip) (ptr_records s)))\<rparr>)"
proof -
  let ?s1 = "s\<lparr>namedconf_entries := dict_set z (zone_fname z) (namedconf_entries s),
        files := (files s)(zone_path cfg z \<mapsto> [zone_header cfg z])\<rparr>"
  have f: "files ?s1 (zone_path cfg z) = Some [zone_header cfg z]"
    by simp
  show ?thesis
    unfolding write_ptr_zone_def
    by (simp add: and_then_def get_zone_file_result
          ptr_loop [where es = "ptr_records s", OF f assms])
qed

lemma delegate_host_step:
  assumes "network_reverse_pointer ipnet = Inr z" and "unscoped ip"
  shows "delegate_host fd cfd cz ipnet ip s =
     (Inr (),
      case map_of (ptr_records s) ip of
        None \<Rightarrow> s
      | Some r \<Rightarrow>
          if r = [] then s
          else fd_write cfd (delegation_cname_line z (relevant_octets cz ip, dotted r))
                 (fd_write fd (delegated_ptr_line (relevant_octets cz ip, dotted r)) s))"
  using assms
  by (auto simp: delegate_host_def and_then_def lift_def unscoped_pointer Let_def write_entry_plain
      upper_PTR upper_CNAME relevant_octets_def dotted_def delegated_ptr_line_def
      delegation_cname_line_def split: option.splits)

lemma delegate_loop:
  assumes "fd \<noteq> cfd" and "files s fd = Some ws" and "files s cfd = Some cws"
    and "network_reverse_pointer ipnet = Inr z" and "\<forall>ip \<in> set ips. unscoped ip"
  shows "for_each (delegate_host fd cfd cz ipnet) ips s =
     (Inr (), s\<lparr>files := (files s)
        (fd \<mapsto> ws @ map delegated_ptr_line (delegated_entries cz (ptr_records s) ips),
         cfd \<mapsto> cws @ map (delegation_cname_line z) (delegated_entries cz (ptr_records s) ips))\<rparr>)"
  using assms(2,3,5)
proof (induction ips arbitrary: s ws cws)
  case Nil
  then show ?case
    by (simp add: delegated_entries_def fun_upd_idem)
next
  case (Cons ip ips)
  let ?B = "delegate_host fd cfd cz ipnet"
  let ?new = "case map_of (ptr_records s) ip of
                None \<Rightarrow> []
              | Some r \<Rightarrow> if r = [] then [] else [(relevant_octets cz ip, dotted r)]"
  let ?s1 = "s\<lparr>files := (files s)
        (fd \<mapsto> ws @ map delegated_ptr_line ?new,
         cfd \<mapsto> cws @ map (delegation_cname_line z) ?new)\<rparr>"
  have u: "unscoped ip" and rest: "\<forall>ip \<in> set ips. unscoped ip"
    using Cons.prems by simp_all
  have step: "?B ip s = (Inr (), ?s1)"
    using Cons.prems(1,2) assms(1)
    by (auto simp: delegate_host_step [OF assms(4) u] fd_write_def fun_upd_idem fun_upd_twist
        split: option.splits)
  have f1: "files ?s1 fd = Some (ws @ map delegated_ptr_line ?new)"
    using assms(1) by simp
  have f2: "files ?s1 cfd = Some (cws @ map (delegation_cname_line z) ?new)"
    by simp
  have idx: "ptr_records ?s1 = ptr_records s"
    by simp
  have ents: "delegated_entries cz (ptr_records s) (ip # ips) =
              ?new @ delegated_entries cz (ptr_records s) ips"
    by (simp add: delegated_entries_def)
  have "for_each ?B (ip # ips) s = for_each ?B ips ?s1"
    using step by simp
  also have "\<dots> = (Inr (), ?s1\<lparr>files := (files ?s1)
        (fd \<mapsto> (ws @ map delegated_ptr_line ?new) @
                map delegated_ptr_line (delegated_entries cz (ptr_records ?s1) ips),
         cfd \<mapsto> (cws @ map (delegation_cname_line z) ?new) @
                map (delegation_cname_line z) (delegated_entries cz (ptr_records ?s1) ips))\<rparr>)"
    by (rule Cons.IH [OF f1 f2 rest])
  also have "?s1\<lparr>files := (files ?s1)
        (fd \<mapsto> (ws @ map delegated_ptr_line ?new) @
                map delegated_ptr_line (delegated_entries cz (ptr_records ?s1) ips),
         cfd \<mapsto> (cws @ map (delegation_cname_line z) ?new) @
                map (delegation_cname_line z) (delegated_entries cz (ptr_records ?s1) ips))\<rparr> =
      s\<lparr>files := (files s)
        (fd \<mapsto> ws @ map delegated_ptr_line (delegated_entries cz (ptr_records s) (ip # ips)),
         cfd \<mapsto> cws @ map (delegation_cname_line z) (delegated_entries cz (ptr_records s) (ip # ips)))\<rparr>"
    unfolding ents idx using assms(1) by (simp add: fun_upd_twist)
  finally show ?case .
qed

lemma unaligned_bounds: "(p::nat) mod 8 \<noteq> 0 \<Longrightarrow> 0 < p \<and> p div 8 * 8 < p"
  by presburger

lemma write_ptr4_zone_unaligned:
  assumes "IPv4Network_str netblock = Inr (IPv4Network n p)" and "p mod 8 \<noteq> 0"
    and "network_reverse_pointer (IPv4Network n p) = Inr z"
    and "cz = lstrip ''0.'' (pointer_name (IPv4Address (n AND push_bit (p - p div 8 * 8) (netmask4 p))))"
  shows "write_ptr4_zone cfg netblock s =
     (Inr (),
      s\<lparr>namedconf_entries :=
          dict_set cz (zone_fname cz) (dict_set z (zone_fname z) (namedconf_entries s)),
        files := (files s)
          (zone_path cfg z \<mapsto> zone_header cfg z #
             map delegated_ptr_line
               (delegated_entries cz (ptr_records s) (network_hosts (IPv4Network n p))),
           zone_path cfg cz \<mapsto> zone_header cfg cz #
             map (delegation_cname_line z)
               (delegated_entries cz (ptr_records s) (network_hosts (IPv4Network n p))))\<rparr>)"
    and "zone_path cfg z \<noteq> zone_path cfg cz" and "z \<noteq> cz"
proof -
  from assms(2) have pos: "0 < p" and lt: "p div 8 * 8 < p"
    using unaligned_bounds by blast+
  let ?cn = "n AND push_bit (p - p div 8 * 8) (netmask4 p)"
  have sup: "supernet (IPv4Network n p) (p div 8 * 8) = Inr (IPv4Network ?cn (p div 8 * 8))"
    using supernet_v4 [OF pos, of "p div 8 * 8" n] lt by simp
  have rp: "reverse_pointer (IPv4Address ?cn) = Inr (pointer_name (IPv4Address ?cn))"
    by (simp add: unscoped_pointer unscoped_def)
  have slash: "CHR ''/'' \<in> set z"
    using network_pointer_v4 [of n p] assms(3) by simp
  have czs: "set cz \<subseteq> pointer_chars"
    unfolding assms(4) using lstrip_subset pointer_v4_chars by blast
  have "zone_fname z \<noteq> zone_fname cz"
    using zone_fname_slash [OF slash] zone_fname_classful [OF czs] by metis
  then show paths: "zone_path cfg z \<noteq> zone_path cfg cz"
    using zone_path_inj by blast
  show "z \<noteq> cz"
    using slash czs not_pointer_chars by blast
  let ?s1 = "s\<lparr>namedconf_entries := dict_set z (zone_fname z) (namedconf_entries s),
               files := (files s)(zone_path cfg z \<mapsto> [zone_header cfg z])\<rparr>"
  let ?s2 = "?s1\<lparr>namedconf_entries := dict_set cz (zone_fname cz) (namedconf_entries ?s1),
               files := (files ?s1)(zone_path cfg cz \<mapsto> [zone_header cfg cz])\<rparr>"
  have f1: "files ?s2 (zone_path cfg z) = Some [zone_header cfg z]"
    using paths by simp
  have f2: "files ?s2 (zone_path cfg cz) = Some [zone_header cfg cz]"
    by simp
  have hs: "\<forall>ip \<in> set (network_hosts (IPv4Network n p)). unscoped ip"
    using hosts_v4_unscoped by blast
  note loop = delegate_loop [OF paths f1 f2 assms(3) hs, of cz]
  have "write_ptr4_zone cfg netblock s =
          for_each (delegate_host (zone_path cfg z) (zone_path cfg cz) cz (IPv4Network n p))
            (network_hosts (IPv4Network n p)) ?s2"
    using assms(2) lt
    by (simp add: write_ptr4_zone_def and_then_def lift_def assms(1,3) prefixlen_def
        get_zone_file_result Let_def sup network_address_def rp assms(4) [symmetric])
  also note loop
  finally show "write_ptr4_zone cfg netblock s =
     (Inr (),
      s\<lparr>namedconf_entries :=
          dict_set cz (zone_fname cz) (dict_set z (zone_fname z) (namedconf_entries s)),
        files := (files s)
          (zone_path cfg z \<mapsto> zone_header cfg z #
             map delegated_ptr_line
               (delegated_entries cz (ptr_records s) (network_hosts (IPv4Network n p))),
           zone_path cfg cz \<mapsto> zone_header cfg cz #
             map (delegation_cname_line z)
               (delegated_entries cz (ptr_records s) (network_hosts (IPv4Network n p))))\<rparr>)"
    using paths by (simp add: fun_upd_twist)
qed

section \<open>Blocks of the scenarios\<close>

lemma net_229_24: "IPv4Network_str ''172.20.229.0/24'' = Inr (IPv4Network 0xAC14E500 24)"
  by code_simp

lemma rp_229_0: "reverse_pointer (IPv4Address 0xAC14E500) = Inr ''0.229.20.172.in-addr.arpa''"
  by code_simp

lemma rp_229_1: "reverse_pointer (IPv4Address 0xAC14E501) = Inr ''1.229.20.172.in-addr.arpa''"
  by code_simp

lemma lstrip_229: "lstrip ''0.'' ''0.229.20.172.in-addr.arpa'' = ''229.20.172.in-addr.arpa''"
  by code_simp

lemma contains_229_1: "contains (IPv4Network 0xAC14E500 24) (IPv4Address 0xAC14E501)"
  by code_simp

lemma net_112_28: "IPv4Network_str ''172.20.229.112/28'' = Inr (IPv4Network 0xAC14E570 28)"
  by code_simp

lemma nrp_112_28: "network_reverse_pointer (IPv4Network 0xAC14E570 28) = Inr ''112/28.229.20.172.in-addr.arpa''"
  by code_simp

lemma supernet_112_28: "supernet (IPv4Network 0xAC14E570 28) 24 = Inr (IPv4Network 0xAC14E500 24)"
  by code_simp

lemma hosts_112_28: "network_hosts (IPv4Network 0xAC14E570 28) =
   map IPv4Address [0xAC14E571, 0xAC14E572, 0xAC14E573, 0xAC14E574, 0xAC14E575, 0xAC14E576, 0xAC14E577,
     0xAC14E578, 0xAC14E579, 0xAC14E57A, 0xAC14E57B, 0xAC14E57C, 0xAC14E57D, 0xAC14E57E]"
  by code_simp

lemma contains_112: "contains (IPv4Network 0xAC14E570 28) (IPv4Address 0xAC14E570)"
  by code_simp

section \<open>The claims about the forward pass\<close>

text \<open>
  C6, as the code has it. A call of \<^verbatim>\<open>_write_entry\<close> with a reverse domain and a record
  type that is not A or AAAA after upper-casing fails with the error of a wrong record
  type and leaves the PTR index as it was. With type A or AAAA the call succeeds and
  registers the address under \<^verbatim>\<open><name>.<reverse_domain>\<close> when the data parses as an
  IPv4 or IPv6 address; when the data does not parse, the call fails with the error of
  the address parser and the PTR index is unchanged.
\<close>

theorem write_entry_reverse_linkage:
  "(upper rtype \<noteq> ''A'' \<and> upper rtype \<noteq> ''AAAA'' \<longrightarrow>
      fst (write_entry fd name rtype data (Some rd) s) =
        Inl (InvalidRecordType
               (''Cannot add PTR record: expected rtype A or AAAA but got '' @ upper rtype)) \<and>
      ptr_records (snd (write_entry fd name rtype data (Some rd) s)) = ptr_records s) \<and>
   ((upper rtype = ''A'' \<or> upper rtype = ''AAAA'') \<and> ip_address data = Inr ip \<longrightarrow>
      fst (write_entry fd name rtype data (Some rd) s) = Inr () \<and>
      ptr_records (snd (write_entry fd name rtype data (Some rd) s)) =
        dict_set ip (name @ ''.'' @ rd) (ptr_records s) \<and>
      map_of (ptr_records (snd (write_entry fd name rtype data (Some rd) s))) ip =
        Some (name @ ''.'' @ rd)) \<and>
   ((upper rtype = ''A'' \<or> upper rtype = ''AAAA'') \<and> ip_address data = Inl e \<longrightarrow>
      fst (write_entry fd name rtype data (Some rd) s) = Inl AddressParseError \<and>
      ptr_records (snd (write_entry fd name rtype data (Some rd) s)) = ptr_records s)"
  by (auto simp: write_entry_cases Let_def fd_write_def map_of_dict_set dest: ip_address_error)

theorem write_entry_reverse_linkage_witness:
  "fst (write_entry ''f'' ''www'' ''cname'' ''gw'' (Some ''example.dn42'') (initial_state Map.empty)) =
     Inl (InvalidRecordType ''Cannot add PTR record: expected rtype A or AAAA but got CNAME'') \<and>
   fst (write_entry ''f'' ''gw'' ''aaaa'' ''fd00::1'' (Some ''example.dn42'') (initial_state Map.empty)) =
     Inr () \<and>
   map_of (ptr_records (snd (write_entry ''f'' ''gw'' ''aaaa'' ''fd00::1'' (Some ''example.dn42'')
                               (initial_state Map.empty))))
     (IPv6Address 0xfd000000000000000000000000000001 None) = Some ''gw.example.dn42'' \<and>
   fst (write_entry ''f'' ''gw'' ''a'' ''172.20.229.256'' (Some ''example.dn42'') (initial_state Map.empty)) =
     Inl AddressParseError"
proof -
  have a: "upper ''cname'' \<noteq> ''A'' \<and> upper ''cname'' \<noteq> ''AAAA''"
    by (simp add: upper_eval)
  have b: "(upper ''aaaa'' = ''A'' \<or> upper ''aaaa'' = ''AAAA'') \<and>
           ip_address ''fd00::1'' = Inr (IPv6Address 0xfd000000000000000000000000000001 None)"
    by (simp add: upper_eval ip_address_gw6)
  have c: "(upper ''a'' = ''A'' \<or> upper ''a'' = ''AAAA'') \<and>
           ip_address ''172.20.229.256'' = Inl AddressParseError"
    by (simp add: upper_eval ip_address_bad_octet)
  have 1: "fst (write_entry ''f'' ''www'' ''cname'' ''gw'' (Some ''example.dn42'') (initial_state Map.empty)) =
     Inl (InvalidRecordType (''Cannot add PTR record: expected rtype A or AAAA but got '' @ upper ''cname''))"
    using write_entry_reverse_linkage [of "''cname''" "''f''" "''www''" "''gw''" "''example.dn42''"
            "initial_state Map.empty"] a by blast
  have 2: "fst (write_entry ''f'' ''gw'' ''aaaa'' ''fd00::1'' (Some ''example.dn42'') (initial_state Map.empty)) =
     Inr () \<and>
   map_of (ptr_records (snd (write_entry ''f'' ''gw'' ''aaaa'' ''fd00::1'' (Some ''example.dn42'')
                               (initial_state Map.empty))))
     (IPv6Address 0xfd000000000000000000000000000001 None) = Some (''gw'' @ ''.'' @ ''example.dn42'')"
    using write_entry_reverse_linkage [of "''aaaa''" "''f''" "''gw''" "''fd00::1''" "''example.dn42''"
            "initial_state Map.empty" "IPv6Address 0xfd000000000000000000000000000001 None"] b
    by blast
  have 3: "fst (write_entry ''f'' ''gw'' ''a'' ''172.20.229.256'' (Some ''example.dn42'') (initial_state Map.empty)) =
     Inl AddressParseError"
    using write_entry_reverse_linkage [of "''a''" "''f''" "''gw''" "''172.20.229.256''" "''example.dn42''"
            "initial_state Map.empty" _ AddressParseError] c
    by blast
  from 1 2 3 show ?thesis by (simp add: upper_eval)
qed

text \<open>
  C6 as it is stated fails: a call with type A and a reverse domain whose data is not an
  address fails with the error of the address parser, and nothing is registered.
\<close>

theorem write_entry_unparsed_address_counterexample:
  "fst (write_entry ''out/example.dn42.zone'' ''gw'' ''A'' ''172.20.229.256'' (Some ''example.dn42'')
          (initial_state Map.empty)) = Inl AddressParseError \<and>
   ptr_records (snd (write_entry ''out/example.dn42.zone'' ''gw'' ''A'' ''172.20.229.256''
                       (Some ''example.dn42'') (initial_state Map.empty))) = []"
  by (simp add: write_entry_cases Let_def upper_eval ip_address_bad_octet fd_write_def initial_state_def)

lemma forward_record_gw:
  "forward_record fd hosts ''example.dn42''
     (''gw'', [''type'' \<mapsto> ''ansible_host_record'', ''ip4'' \<mapsto> ''172.20.229.1'',
               ''ip6'' \<mapsto> ''fd00::1'']) s =
     (Inr (), s\<lparr>files := (files s)(fd \<mapsto> (case files s fd of None \<Rightarrow> [] | Some ws \<Rightarrow> ws) @
                   [''gw IN A 172.20.229.1\<newline>'', ''gw IN AAAA fd00::1\<newline>'']),
              ptr_records := dict_set (IPv6Address 0xfd000000000000000000000000000001 None) ''gw.example.dn42''
                 (dict_set (IPv4Address 0xAC14E501) ''gw.example.dn42'' (ptr_records s))\<rparr>)"
  by (simp add: forward_record_def and_then_def getitem_def return_def raise_def
      write_entry_cases Let_def upper_eval ip_address_gw4 ip_address_gw6 fd_write_def entry_line_def nl_def
      split: option.splits)

text \<open>
  C7. For the forward domain \<^verbatim>\<open>example.dn42\<close> with the one host record \<^verbatim>\<open>gw\<close>
  (\<^verbatim>\<open>ip4=172.20.229.1\<close>, \<^verbatim>\<open>ip6=fd00::1\<close>), \<^verbatim>\<open>write_forward_zone\<close> succeeds, the zone
  file holds the head and the lines \<^verbatim>\<open>gw IN A 172.20.229.1\<close> and
  \<^verbatim>\<open>gw IN AAAA fd00::1\<close>, and afterwards the PTR index maps both addresses to
  \<^verbatim>\<open>gw.example.dn42\<close>. The scenario names no inventory: it is taken with a domain that
  is not the primary domain, or with an empty inventory, so that no host lines follow.
\<close>

theorem forward_zone_gw_scenario:
  "dns_domain cfg \<noteq> ''example.dn42'' \<or> hosts = [] \<Longrightarrow>
   fst (write_forward_zone cfg hosts ''example.dn42''
          [(''gw'', [''type'' \<mapsto> ''ansible_host_record'', ''ip4'' \<mapsto> ''172.20.229.1'',
                     ''ip6'' \<mapsto> ''fd00::1''])] s) = Inr () \<and>
   files (snd (write_forward_zone cfg hosts ''example.dn42''
          [(''gw'', [''type'' \<mapsto> ''ansible_host_record'', ''ip4'' \<mapsto> ''172.20.229.1'',
                     ''ip6'' \<mapsto> ''fd00::1''])] s))
     (path_join (out_dir cfg) ''example.dn42.zone'') =
       Some [zone_header cfg ''example.dn42'', ''gw IN A 172.20.229.1\<newline>'',
             ''gw IN AAAA fd00::1\<newline>''] \<and>
   map_of (ptr_records (snd (write_forward_zone cfg hosts ''example.dn42''
          [(''gw'', [''type'' \<mapsto> ''ansible_host_record'', ''ip4'' \<mapsto> ''172.20.229.1'',
                     ''ip6'' \<mapsto> ''fd00::1''])] s)))
     (IPv4Address 0xAC14E501) = Some ''gw.example.dn42'' \<and>
   map_of (ptr_records (snd (write_forward_zone cfg hosts ''example.dn42''
          [(''gw'', [''type'' \<mapsto> ''ansible_host_record'', ''ip4'' \<mapsto> ''172.20.229.1'',
                     ''ip6'' \<mapsto> ''fd00::1''])] s)))
     (IPv6Address 0xfd000000000000000000000000000001 None) = Some ''gw.example.dn42''"
  using forward_record_gw
  by (auto simp: write_forward_zone_def and_then_def get_zone_file_def Let_def fd_write_def open_w_def
      return_def replace_char_def map_of_dict_set)

theorem forward_zone_gw_scenario_witness:
  "dns_domain example_config \<noteq> ''example.dn42'' \<and>
   fst (write_forward_zone example_config [] ''example.dn42''
          [(''gw'', [''type'' \<mapsto> ''ansible_host_record'', ''ip4'' \<mapsto> ''172.20.229.1'',
                     ''ip6'' \<mapsto> ''fd00::1''])] (initial_state Map.empty)) = Inr () \<and>
   files (snd (write_forward_zone example_config [] ''example.dn42''
          [(''gw'', [''type'' \<mapsto> ''ansible_host_record'', ''ip4'' \<mapsto> ''172.20.229.1'',
                     ''ip6'' \<mapsto> ''fd00::1''])] (initial_state Map.empty)))
     ''global-config/dns-zones/example.dn42.zone'' =
       Some [zone_header example_config ''example.dn42'', ''gw IN A 172.20.229.1\<newline>'',
             ''gw IN AAAA fd00::1\<newline>''] \<and>
   map_of (ptr_records (snd (write_forward_zone example_config [] ''example.dn42''
          [(''gw'', [''type'' \<mapsto> ''ansible_host_record'', ''ip4'' \<mapsto> ''172.20.229.1'',
                     ''ip6'' \<mapsto> ''fd00::1''])] (initial_state Map.empty))))
     (IPv4Address 0xAC14E501) = Some ''gw.example.dn42''"
proof -
  have h: "dns_domain example_config \<noteq> ''example.dn42'' \<or> ([] :: inventory) = []"
    by simp
  have d: "dns_domain example_config \<noteq> ''example.dn42''"
    by (simp add: example_config_def)
  have p: "path_join (out_dir example_config) ''example.dn42.zone'' =
             ''global-config/dns-zones/example.dn42.zone''"
    by (simp add: example_config_def path_join_def)
  from forward_zone_gw_scenario [OF h, of "initial_state Map.empty"] d p show ?thesis
    by simp
qed

text \<open>
  C8. The PTR index holds at most one entry for an address: after any sequence of calls
  of \<^verbatim>\<open>_write_entry\<close> from the empty index, and after any run of \<^verbatim>\<open>main\<close>, its keys are
  pairwise different. Writing a mapping for an address that is present raises no error,
  replaces the earlier name by the later one and leaves the keys as they were.
\<close>

theorem ptr_index_one_entry_per_address:
  "distinct (map fst (ptr_records (snd (for_each
      (\<lambda>(fd, name, rtype, data, reverse_domain). write_entry fd name rtype data reverse_domain)
      ops (initial_state fs))))) \<and>
   distinct (map fst (ptr_records
      (snd (main cfg hosts dns_records ownnets4 ownnets6 (initial_state fs))))) \<and>
   ((upper rtype = ''A'' \<or> upper rtype = ''AAAA'') \<and> ip_address data = Inr ip \<and>
    map_of (ptr_records s) ip = Some earlier \<longrightarrow>
      fst (write_entry fd name rtype data (Some rd) s) = Inr () \<and>
      map_of (ptr_records (snd (write_entry fd name rtype data (Some rd) s))) ip =
        Some (name @ ''.'' @ rd) \<and>
      map fst (ptr_records (snd (write_entry fd name rtype data (Some rd) s))) =
        map fst (ptr_records s))"
proof -
  have init: "keys_distinct (initial_state fs)"
    by (simp add: keys_distinct_def initial_state_def)
  have "keys_distinct (snd (for_each
      (\<lambda>(fd, name, rtype, data, reverse_domain). write_entry fd name rtype data reverse_domain)
      ops (initial_state fs)))"
    by (rule for_each_pres [where P = keys_distinct, OF _ init])
       (auto intro: write_entry_distinct split: prod.splits)
  moreover have "keys_distinct (snd (main cfg hosts dns_records ownnets4 ownnets6 (initial_state fs)))"
    by (rule main_distinct [OF init])
  moreover have "map_of (ptr_records s) ip = Some earlier \<Longrightarrow> ip \<in> fst ` set (ptr_records s)"
    by (metis map_of_eq_None_iff option.distinct(1))
  ultimately show ?thesis
    by (auto simp: keys_distinct_def write_entry_cases Let_def fd_write_def map_of_dict_set keys_dict_set)
qed

theorem ptr_index_one_entry_per_address_witness:
  "map_of [(IPv4Address 0xAC14E501, ''old.example.dn42'')] (IPv4Address 0xAC14E501) = Some ''old.example.dn42'' \<and>
   fst (write_entry ''f'' ''gw'' ''A'' ''172.20.229.1'' (Some ''example.dn42'')
          ((initial_state Map.empty)\<lparr>ptr_records := [(IPv4Address 0xAC14E501, ''old.example.dn42'')]\<rparr>)) = Inr () \<and>
   map_of (ptr_records (snd (write_entry ''f'' ''gw'' ''A'' ''172.20.229.1'' (Some ''example.dn42'')
          ((initial_state Map.empty)\<lparr>ptr_records := [(IPv4Address 0xAC14E501, ''old.example.dn42'')]\<rparr>))))
     (IPv4Address 0xAC14E501) = Some ''gw.example.dn42'' \<and>
   map fst (ptr_records (snd (write_entry ''f'' ''gw'' ''A'' ''172.20.229.1'' (Some ''example.dn42'')
          ((initial_state Map.empty)\<lparr>ptr_records := [(IPv4Address 0xAC14E501, ''old.example.dn42'')]\<rparr>))))
     = [IPv4Address 0xAC14E501]"
proof -
  let ?s = "(initial_state Map.empty)\<lparr>ptr_records := [(IPv4Address 0xAC14E501, ''old.example.dn42'')]\<rparr>"
  have h: "(upper ''A'' = ''A'' \<or> upper ''A'' = ''AAAA'') \<and>
           ip_address ''172.20.229.1'' = Inr (IPv4Address 0xAC14E501) \<and>
           map_of (ptr_records ?s) (IPv4Address 0xAC14E501) = Some ''old.example.dn42''"
    by (simp add: upper_eval ip_address_gw4)
  from ptr_index_one_entry_per_address [of _ _ _ _ _ _ _ "''A''" "''172.20.229.1''"
         "IPv4Address 0xAC14E501" ?s "''old.example.dn42''" "''f''" "''gw''" "''example.dn42''"] h
  have "fst (write_entry ''f'' ''gw'' ''A'' ''172.20.229.1'' (Some ''example.dn42'') ?s) = Inr () \<and>
      map_of (ptr_records (snd (write_entry ''f'' ''gw'' ''A'' ''172.20.229.1'' (Some ''example.dn42'') ?s)))
        (IPv4Address 0xAC14E501) = Some (''gw'' @ ''.'' @ ''example.dn42'') \<and>
      map fst (ptr_records (snd (write_entry ''f'' ''gw'' ''A'' ''172.20.229.1'' (Some ''example.dn42'') ?s))) =
        map fst (ptr_records ?s)"
    by blast
  then show ?thesis by simp
qed

section \<open>More blocks of the scenarios\<close>

lemma net_128_28: "IPv4Network_str ''172.20.229.128/28'' = Inr (IPv4Network 0xAC14E580 28)"
  by code_simp

lemma nrp_128_28:
  "network_reverse_pointer (IPv4Network 0xAC14E580 28) = Inr ''128/28.229.20.172.in-addr.arpa''"
  by code_simp

lemma classful_112_28:
  "lstrip ''0.'' (pointer_name (IPv4Address (0xAC14E570 AND push_bit (28 - 28 div 8 * 8) (netmask4 28)))) =
     ''229.20.172.in-addr.arpa''"
  by code_simp

lemma classful_128_28:
  "lstrip ''0.'' (pointer_name (IPv4Address (0xAC14E580 AND push_bit (28 - 28 div 8 * 8) (netmask4 28)))) =
     ''229.20.172.in-addr.arpa''"
  by code_simp

lemma fname_112_28: "zone_fname ''112/28.229.20.172.in-addr.arpa'' = ''112_28.229.20.172.in-addr.arpa.zone''"
  by (simp add: zone_fname_def replace_char_def)

lemma fname_128_28: "zone_fname ''128/28.229.20.172.in-addr.arpa'' = ''128_28.229.20.172.in-addr.arpa.zone''"
  by (simp add: zone_fname_def replace_char_def)

lemma fname_229: "zone_fname ''229.20.172.in-addr.arpa'' = ''229.20.172.in-addr.arpa.zone''"
  by (simp add: zone_fname_def replace_char_def)

lemma block_112_28:
  "write_ptr4_zone cfg ''172.20.229.112/28'' s =
     (Inr (),
      s\<lparr>namedconf_entries :=
          dict_set ''229.20.172.in-addr.arpa'' ''229.20.172.in-addr.arpa.zone''
            (dict_set ''112/28.229.20.172.in-addr.arpa'' ''112_28.229.20.172.in-addr.arpa.zone''
               (namedconf_entries s)),
        files := (files s)
          (zone_path cfg ''112/28.229.20.172.in-addr.arpa'' \<mapsto>
             zone_header cfg ''112/28.229.20.172.in-addr.arpa'' #
             map delegated_ptr_line
               (delegated_entries ''229.20.172.in-addr.arpa'' (ptr_records s)
                  (network_hosts (IPv4Network 0xAC14E570 28))),
           zone_path cfg ''229.20.172.in-addr.arpa'' \<mapsto>
             zone_header cfg ''229.20.172.in-addr.arpa'' #
             map (delegation_cname_line ''112/28.229.20.172.in-addr.arpa'')
               (delegated_entries ''229.20.172.in-addr.arpa'' (ptr_records s)
                  (network_hosts (IPv4Network 0xAC14E570 28))))\<rparr>)"
  using write_ptr4_zone_unaligned(1) [OF net_112_28 _ nrp_112_28 classful_112_28 [symmetric], of cfg s]
  by (simp add: fname_112_28 fname_229)

lemma block_128_28:
  "write_ptr4_zone cfg ''172.20.229.128/28'' s =
     (Inr (),
      s\<lparr>namedconf_entries :=
          dict_set ''229.20.172.in-addr.arpa'' ''229.20.172.in-addr.arpa.zone''
            (dict_set ''128/28.229.20.172.in-addr.arpa'' ''128_28.229.20.172.in-addr.arpa.zone''
               (namedconf_entries s)),
        files := (files s)
          (zone_path cfg ''128/28.229.20.172.in-addr.arpa'' \<mapsto>
             zone_header cfg ''128/28.229.20.172.in-addr.arpa'' #
             map delegated_ptr_line
               (delegated_entries ''229.20.172.in-addr.arpa'' (ptr_records s)
                  (network_hosts (IPv4Network 0xAC14E580 28))),
           zone_path cfg ''229.20.172.in-addr.arpa'' \<mapsto>
             zone_header cfg ''229.20.172.in-addr.arpa'' #
             map (delegation_cname_line ''128/28.229.20.172.in-addr.arpa'')
               (delegated_entries ''229.20.172.in-addr.arpa'' (ptr_records s)
                  (network_hosts (IPv4Network 0xAC14E580 28))))\<rparr>)"
  using write_ptr4_zone_unaligned(1) [OF net_128_28 _ nrp_128_28 classful_128_28 [symmetric], of cfg s]
  by (simp add: fname_128_28 fname_229)

lemma entries_112_host:
  "delegated_entries ''229.20.172.in-addr.arpa'' [(IPv4Address 0xAC14E571, ''h.example.dn42'')]
     (network_hosts (IPv4Network 0xAC14E570 28)) = [(''113'', ''h.example.dn42.'')]"
  by code_simp

lemma entries_112_network_address:
  "delegated_entries ''229.20.172.in-addr.arpa'' [(IPv4Address 0xAC14E570, ''net.example.dn42'')]
     (network_hosts (IPv4Network 0xAC14E570 28)) = []"
  by code_simp

lemma path_112_28:
  "zone_path example_config ''112/28.229.20.172.in-addr.arpa'' =
     ''global-config/dns-zones/112_28.229.20.172.in-addr.arpa.zone''"
  by (simp add: zone_path_def path_join_def example_config_def fname_112_28)

lemma path_229:
  "zone_path example_config ''229.20.172.in-addr.arpa'' =
     ''global-config/dns-zones/229.20.172.in-addr.arpa.zone''"
  by (simp add: zone_path_def path_join_def example_config_def fname_229)

lemma contains_v4_unscoped: "contains (IPv4Network n p) ip \<Longrightarrow> unscoped ip"
  by (cases ip) (simp_all add: contains_def unscoped_def)

lemma net_20_16: "IPv4Network_str ''172.20.0.0/16'' = Inr (IPv4Network 0xAC140000 16)"
  by code_simp

lemma rp_20_16: "reverse_pointer (IPv4Address 0xAC140000) = Inr ''0.0.20.172.in-addr.arpa''"
  by code_simp

lemma octet_20_16: "to_bytes4 0xAC140000 ! (16 div 8 - 1) = 20"
  by code_simp

lemma fname_20: "zone_fname ''20.172.in-addr.arpa'' = ''20.172.in-addr.arpa.zone''"
  by (simp add: zone_fname_def replace_char_def)

lemma path_20:
  "zone_path example_config ''20.172.in-addr.arpa'' = ''global-config/dns-zones/20.172.in-addr.arpa.zone''"
  by (simp add: zone_path_def path_join_def example_config_def fname_20)

lemma two_blocks_run:
  "fst (main example_config [] [] [''172.20.229.112/28'', ''172.20.229.128/28''] []
          (initial_state Map.empty)) = Inr () \<and>
   namedconf_entries (snd (main example_config [] [] [''172.20.229.112/28'', ''172.20.229.128/28''] []
          (initial_state Map.empty))) =
     [(''112/28.229.20.172.in-addr.arpa'', ''112_28.229.20.172.in-addr.arpa.zone''),
      (''229.20.172.in-addr.arpa'', ''229.20.172.in-addr.arpa.zone''),
      (''128/28.229.20.172.in-addr.arpa'', ''128_28.229.20.172.in-addr.arpa.zone'')]"
  by (simp add: main_def and_then_def block_112_28 block_128_28 write_named_conf_result
      initial_state_def)

lemma octet_229_24: "to_bytes4 0xAC14E500 ! (24 div 8 - 1) = 229"
  by code_simp

lemma net_0_23: "IPv4Network_str ''172.20.0.0/23'' = Inr (IPv4Network 0xAC140000 23)"
  by code_simp

lemma nrp_0_23: "network_reverse_pointer (IPv4Network 0xAC140000 23) = Inr ''0/23.0.20.172.in-addr.arpa''"
  by code_simp

lemma supernet_0_23: "supernet (IPv4Network 0xAC140000 23) 16 = Inr (IPv4Network 0xAC140000 16)"
  by code_simp

lemma nrp_20_16: "network_reverse_pointer (IPv4Network 0xAC140000 16) = Inr ''0/16.0.20.172.in-addr.arpa''"
  by code_simp

lemma classful_0_23:
  "lstrip ''0.'' (pointer_name (IPv4Address (0xAC140000 AND push_bit (23 - 23 div 8 * 8) (netmask4 23)))) =
     ''20.172.in-addr.arpa''"
  by code_simp

lemma fname_0_23: "zone_fname ''0/23.0.20.172.in-addr.arpa'' = ''0_23.0.20.172.in-addr.arpa.zone''"
  by (simp add: zone_fname_def replace_char_def)

lemma entries_two_112:
  "delegated_entries ''229.20.172.in-addr.arpa''
     [(IPv4Address 0xAC14E571, ''h.example.dn42''), (IPv4Address 0xAC14E581, ''g.example.dn42'')]
     (network_hosts (IPv4Network 0xAC14E570 28)) = [(''113'', ''h.example.dn42.'')]"
  by code_simp

lemma entries_two_128:
  "delegated_entries ''229.20.172.in-addr.arpa''
     [(IPv4Address 0xAC14E571, ''h.example.dn42''), (IPv4Address 0xAC14E581, ''g.example.dn42'')]
     (network_hosts (IPv4Network 0xAC14E580 28)) = [(''129'', ''g.example.dn42.'')]"
  by code_simp

lemma path_128_28:
  "zone_path example_config ''128/28.229.20.172.in-addr.arpa'' =
     ''global-config/dns-zones/128_28.229.20.172.in-addr.arpa.zone''"
  by (simp add: zone_path_def path_join_def example_config_def fname_128_28)

section \<open>The claims about the IPv4 reverse zones\<close>

text \<open>
  C1, as the code has it. Take an IPv4 block that \<^verbatim>\<open>IPv4Network\<close> accepts, whose prefix
  length \<open>p\<close> is not a multiple of 8, and whose supernet at the prefix length \<open>k\<close>, which
  is \<open>p\<close> rounded down to a multiple of 8, has a last network octet that is not zero (or
  \<open>k = 0\<close>). One call of \<^verbatim>\<open>write_ptr4_zone\<close> on it succeeds and produces exactly two zones
  with different names and different files: the delegated zone, named by the reverse
  pointer of the block, and the classful zone, whose name is the reverse pointer of the
  network address of the supernet without its leading \<^verbatim>\<open>0.\<close> components, which are the
  \<open>(32 - k) / 8\<close> host octets of the supernet: one for a /24, two for a /16, three for a
  /8. When the call returns, both zone files are written from one list of pairs of owner
  name and target: the delegated zone holds the PTR line of every pair, the classful
  zone the CNAME line of the same pair, with the same owner name and the target
  \<^verbatim>\<open><owner>.<delegated zone name>.\<close>
\<close>

theorem unaligned_block_two_zones:
  assumes "IPv4Network_str netblock = Inr ipnet" and "prefixlen ipnet mod 8 \<noteq> 0"
    and "supernet ipnet (prefixlen ipnet div 8 * 8) = Inr (IPv4Network cn k)"
    and "k = 0 \<or> to_bytes4 cn ! (k div 8 - 1) \<noteq> 0"
  shows "\<exists>zonename classful_zonename es.
     network_reverse_pointer ipnet = Inr zonename \<and>
     k = prefixlen ipnet div 8 * 8 \<and>
     reverse_pointer (IPv4Address cn) =
       Inr (concat (replicate ((32 - k) div 8) ''0.'') @ classful_zonename) \<and>
     classful_zonename \<noteq> [] \<and> hd classful_zonename \<notin> set ''0.'' \<and>
     zonename \<noteq> classful_zonename \<and>
     zone_path cfg zonename \<noteq> zone_path cfg classful_zonename \<and>
     es = delegated_entries classful_zonename (ptr_records s) (network_hosts ipnet) \<and>
     write_ptr4_zone cfg netblock s =
       (Inr (),
        s\<lparr>namedconf_entries :=
            dict_set classful_zonename (zone_fname classful_zonename)
              (dict_set zonename (zone_fname zonename) (namedconf_entries s)),
          files := (files s)
            (zone_path cfg zonename \<mapsto> zone_header cfg zonename # map delegated_ptr_line es,
             zone_path cfg classful_zonename \<mapsto>
               zone_header cfg classful_zonename # map (delegation_cname_line zonename) es)\<rparr>)"
proof -
  from IPv4Network_str_Inr [OF assms(1)] obtain n p where
    net: "ipnet = IPv4Network n p" and p32: "p \<le> 32" by blast
  from assms(2) have p: "p mod 8 \<noteq> 0"
    by (simp add: net prefixlen_def)
  then have pos: "0 < p" and lt: "p div 8 * 8 < p"
    using unaligned_bounds by blast+
  obtain z where z: "network_reverse_pointer (IPv4Network n p) = Inr z"
    using network_pointer_v4 [of n p] by blast
  let ?cn = "n AND push_bit (p - p div 8 * 8) (netmask4 p)"
  have sup: "supernet (IPv4Network n p) (p div 8 * 8) = Inr (IPv4Network ?cn (p div 8 * 8))"
    using supernet_v4 [OF pos, of "p div 8 * 8" n] lt by simp
  have "supernet ipnet (prefixlen ipnet div 8 * 8) = Inr (IPv4Network ?cn (p div 8 * 8))"
    using sup by (simp add: net prefixlen_def)
  then have "IPv4Network cn k = IPv4Network ?cn (p div 8 * 8)"
    unfolding assms(3) by (simp only: sum.inject)
  then have cn: "cn = ?cn" and k: "k = p div 8 * 8"
    by blast+
  have k32: "k \<le> 32" and k8: "k mod 8 = 0" and kp: "k \<le> p"
    using p32 lt by (simp_all add: k)
  have hb: "cn AND netmask4 k = cn"
    unfolding cn using supernet_host_bits [OF kp, of n] by (simp add: k)
  from aligned_zone_name [OF k32 k8 hb assms(4)] obtain cz where
    pn: "pointer_name (IPv4Address cn) = concat (replicate ((32 - k) div 8) ''0.'') @ cz"
    and ls: "lstrip ''0.'' (pointer_name (IPv4Address cn)) = cz"
    and nz: "cz \<noteq> []" "hd cz \<notin> set ''0.''"
    by blast
  have rp: "reverse_pointer (IPv4Address cn) = Inr (pointer_name (IPv4Address cn))"
    by (simp add: unscoped_pointer unscoped_def)
  have czq: "cz = lstrip ''0.'' (pointer_name (IPv4Address ?cn))"
    using ls by (simp add: cn)
  note r = write_ptr4_zone_unaligned(1) [where cfg = cfg and s = s, OF assms(1) [unfolded net] p z czq]
    write_ptr4_zone_unaligned(2) [where cfg = cfg, OF assms(1) [unfolded net] p z czq]
    write_ptr4_zone_unaligned(3) [OF assms(1) [unfolded net] p z czq]
  show ?thesis
    apply (rule exI [of _ z])
    apply (rule exI [of _ cz])
    apply (rule exI [of _ "delegated_entries cz (ptr_records s) (network_hosts (IPv4Network n p))"])
    using r z nz rp pn
    apply (simp add: net prefixlen_def k)
    done
qed

theorem unaligned_block_two_zones_witness:
  "IPv4Network_str ''172.20.229.112/28'' = Inr (IPv4Network 0xAC14E570 28) \<and>
   prefixlen (IPv4Network 0xAC14E570 28) mod 8 \<noteq> 0 \<and>
   supernet (IPv4Network 0xAC14E570 28) (prefixlen (IPv4Network 0xAC14E570 28) div 8 * 8) =
     Inr (IPv4Network 0xAC14E500 24) \<and>
   to_bytes4 0xAC14E500 ! (24 div 8 - 1) \<noteq> 0 \<and>
   reverse_pointer (IPv4Address 0xAC14E500) = Inr (''0.'' @ ''229.20.172.in-addr.arpa'') \<and>
   write_ptr4_zone example_config ''172.20.229.112/28''
     ((initial_state Map.empty)\<lparr>ptr_records := [(IPv4Address 0xAC14E571, ''h.example.dn42'')]\<rparr>) =
     (Inr (),
      \<lparr>ptr_records = [(IPv4Address 0xAC14E571, ''h.example.dn42'')],
       namedconf_entries =
         [(''112/28.229.20.172.in-addr.arpa'', ''112_28.229.20.172.in-addr.arpa.zone''),
          (''229.20.172.in-addr.arpa'', ''229.20.172.in-addr.arpa.zone'')],
       files = [''global-config/dns-zones/112_28.229.20.172.in-addr.arpa.zone'' \<mapsto>
                  [zone_header example_config ''112/28.229.20.172.in-addr.arpa'',
                   ''113 IN PTR h.example.dn42.\<newline>''],
                ''global-config/dns-zones/229.20.172.in-addr.arpa.zone'' \<mapsto>
                  [zone_header example_config ''229.20.172.in-addr.arpa'',
                   ''113 IN CNAME 113.112/28.229.20.172.in-addr.arpa.\<newline>'']]\<rparr>)"
proof -
  let ?s = "(initial_state Map.empty)\<lparr>ptr_records := [(IPv4Address 0xAC14E571, ''h.example.dn42'')]\<rparr>"
  have h: "prefixlen (IPv4Network 0xAC14E570 28) mod 8 \<noteq> 0"
    by (simp add: prefixlen_def)
  have pl: "prefixlen (IPv4Network 0xAC14E570 28) div 8 * 8 = 24"
    by (simp add: prefixlen_def)
  have h3: "supernet (IPv4Network 0xAC14E570 28) (prefixlen (IPv4Network 0xAC14E570 28) div 8 * 8) =
              Inr (IPv4Network 0xAC14E500 24)"
    by (simp only: pl supernet_112_28)
  have h4: "(24 :: nat) = 0 \<or> to_bytes4 0xAC14E500 ! (24 div 8 - 1) \<noteq> 0"
    by (simp only: octet_229_24) simp
  from unaligned_block_two_zones [OF net_112_28 h h3 h4, of example_config ?s]
  obtain zonename classful_zonename es where
    a: "network_reverse_pointer (IPv4Network 0xAC14E570 28) = Inr zonename"
    and c: "reverse_pointer (IPv4Address 0xAC14E500) =
              Inr (concat (replicate ((32 - 24) div 8) ''0.'') @ classful_zonename)"
    and d: "es = delegated_entries classful_zonename (ptr_records ?s)
                   (network_hosts (IPv4Network 0xAC14E570 28))"
    and e: "write_ptr4_zone example_config ''172.20.229.112/28'' ?s =
       (Inr (),
        ?s\<lparr>namedconf_entries :=
            dict_set classful_zonename (zone_fname classful_zonename)
              (dict_set zonename (zone_fname zonename) (namedconf_entries ?s)),
          files := (files ?s)
            (zone_path example_config zonename \<mapsto>
               zone_header example_config zonename # map delegated_ptr_line es,
             zone_path example_config classful_zonename \<mapsto>
               zone_header example_config classful_zonename #
               map (delegation_cname_line zonename) es)\<rparr>)"
    by blast
  from a have z: "zonename = ''112/28.229.20.172.in-addr.arpa''"
    by (simp add: nrp_112_28)
  have "concat (replicate ((32 - 24) div 8) ''0.'') = ''0.''"
    by (simp add: zero_octets)
  with c have cz: "classful_zonename = ''229.20.172.in-addr.arpa''"
    by (simp add: rp_229_0)
  from d have es: "es = [(''113'', ''h.example.dn42.'')]"
    by (simp add: cz entries_112_host)
  show ?thesis
    unfolding e using h h3 h4
    by (simp add: net_112_28 rp_229_0 z cz es fname_112_28 fname_229 path_112_28 path_229
        initial_state_def delegated_ptr_line_def delegation_cname_line_def entry_line_def nl_def)
qed

text \<open>
  C1 as it is stated fails at \<^verbatim>\<open>172.20.0.0/23\<close>. The supernet is \<^verbatim>\<open>172.20.0.0/16\<close>; its
  reverse pointer is \<^verbatim>\<open>0/16.0.20.172.in-addr.arpa\<close>, and the reverse pointer of its network
  address is \<^verbatim>\<open>0.0.20.172.in-addr.arpa\<close>. The classful zone is \<^verbatim>\<open>20.172.in-addr.arpa\<close>, the
  classic zone of the /16: neither of the two reverse pointers, and with two leading
  components removed, not one.
\<close>

theorem unaligned_block_supernet_16_counterexample:
  "IPv4Network_str ''172.20.0.0/23'' = Inr (IPv4Network 0xAC140000 23) \<and>
   supernet (IPv4Network 0xAC140000 23) 16 = Inr (IPv4Network 0xAC140000 16) \<and>
   network_reverse_pointer (IPv4Network 0xAC140000 16) = Inr ''0/16.0.20.172.in-addr.arpa'' \<and>
   reverse_pointer (IPv4Address 0xAC140000) = Inr ''0.0.20.172.in-addr.arpa'' \<and>
   namedconf_entries (snd (write_ptr4_zone example_config ''172.20.0.0/23'' (initial_state Map.empty))) =
     [(''0/23.0.20.172.in-addr.arpa'', ''0_23.0.20.172.in-addr.arpa.zone''),
      (''20.172.in-addr.arpa'', ''20.172.in-addr.arpa.zone'')] \<and>
   ''20.172.in-addr.arpa'' \<noteq> ''0.20.172.in-addr.arpa''"
  using write_ptr4_zone_unaligned(1) [OF net_0_23 _ nrp_0_23 classful_0_23 [symmetric],
      of example_config "initial_state Map.empty"]
  by (simp add: net_0_23 supernet_0_23 nrp_20_16 rp_20_16 fname_0_23 fname_20 initial_state_def)

text \<open>
  The statement about the two zone files is about one call. \<^verbatim>\<open>get_zone_file\<close> opens the
  file of a zone with mode \<^verbatim>\<open>'w'\<close>, so a later block with the same classful zone empties
  that file again: after the blocks \<^verbatim>\<open>172.20.229.112/28\<close> and \<^verbatim>\<open>172.20.229.128/28\<close> the
  file of \<^verbatim>\<open>229.20.172.in-addr.arpa\<close> holds the CNAME line of the second block only,
  while the delegated zone of the first block keeps its PTR line.
\<close>

lemma second_block_rewrites_classful_zone:
  "files (snd (main example_config [] [] [''172.20.229.112/28'', ''172.20.229.128/28''] []
     ((initial_state Map.empty)\<lparr>ptr_records :=
        [(IPv4Address 0xAC14E571, ''h.example.dn42''), (IPv4Address 0xAC14E581, ''g.example.dn42'')]\<rparr>)))
     ''global-config/dns-zones/112_28.229.20.172.in-addr.arpa.zone'' =
     Some [zone_header example_config ''112/28.229.20.172.in-addr.arpa'',
           ''113 IN PTR h.example.dn42.\<newline>''] \<and>
   files (snd (main example_config [] [] [''172.20.229.112/28'', ''172.20.229.128/28''] []
     ((initial_state Map.empty)\<lparr>ptr_records :=
        [(IPv4Address 0xAC14E571, ''h.example.dn42''), (IPv4Address 0xAC14E581, ''g.example.dn42'')]\<rparr>)))
     ''global-config/dns-zones/229.20.172.in-addr.arpa.zone'' =
     Some [zone_header example_config ''229.20.172.in-addr.arpa'',
           ''129 IN CNAME 129.128/28.229.20.172.in-addr.arpa.\<newline>'']"
  by (simp add: main_def and_then_def block_112_28 block_128_28 write_named_conf_result
      initial_state_def entries_two_112 entries_two_128 path_112_28 path_128_28 path_229
      delegated_ptr_line_def delegation_cname_line_def entry_line_def nl_def named_conf_path_def)

text \<open>
  C2 at the block \<^verbatim>\<open>172.20.229.112/28\<close> with a PTR index that holds the network address
  \<^verbatim>\<open>172.20.229.112\<close>: the address is in the block and has an entry, yet both zones are
  written with their heads only. The loop of \<^verbatim>\<open>write_ptr4_zone\<close> runs over
  \<^verbatim>\<open>ipnet.hosts()\<close>, which leaves out the network and the broadcast address.
\<close>

theorem network_address_entry_gets_no_record:
  "IPv4Network_str ''172.20.229.112/28'' = Inr (IPv4Network 0xAC14E570 28) \<and>
   contains (IPv4Network 0xAC14E570 28) (IPv4Address 0xAC14E570) \<and>
   write_ptr4_zone cfg ''172.20.229.112/28''
     (s\<lparr>ptr_records := [(IPv4Address 0xAC14E570, ''net.example.dn42'')]\<rparr>) =
     (Inr (),
      s\<lparr>ptr_records := [(IPv4Address 0xAC14E570, ''net.example.dn42'')],
        namedconf_entries :=
          dict_set ''229.20.172.in-addr.arpa'' ''229.20.172.in-addr.arpa.zone''
            (dict_set ''112/28.229.20.172.in-addr.arpa'' ''112_28.229.20.172.in-addr.arpa.zone''
               (namedconf_entries s)),
        files := (files s)
          (zone_path cfg ''112/28.229.20.172.in-addr.arpa'' \<mapsto>
             [zone_header cfg ''112/28.229.20.172.in-addr.arpa''],
           zone_path cfg ''229.20.172.in-addr.arpa'' \<mapsto>
             [zone_header cfg ''229.20.172.in-addr.arpa''])\<rparr>)"
  by (simp add: net_112_28 contains_112 block_112_28 entries_112_network_address)

text \<open>
  C3, as the code has it. For every IPv4 block that \<^verbatim>\<open>IPv4Network\<close> accepts and whose
  prefix length \<open>p\<close> is a multiple of 8, with a last network octet that is not zero (or
  \<open>p = 0\<close>), \<^verbatim>\<open>write_ptr4_zone\<close> succeeds and produces exactly one zone. Its name is
  the reverse pointer of the network address without its leading \<^verbatim>\<open>0.\<close> components,
  which are the \<open>(32 - p) / 8\<close> host octets: one for a /24, two for a /16, three for a
  /8. The zone holds one PTR line for every entry of the PTR index in the block.
\<close>

theorem aligned_block_one_zone:
  assumes "IPv4Network_str netblock = Inr (IPv4Network n p)" and "p mod 8 = 0"
    and "p = 0 \<or> to_bytes4 n ! (p div 8 - 1) \<noteq> 0"
  shows "\<exists>zonename.
     reverse_pointer (IPv4Address n) =
       Inr (concat (replicate ((32 - p) div 8) ''0.'') @ zonename) \<and>
     zonename \<noteq> [] \<and> hd zonename \<notin> set ''0.'' \<and>
     write_ptr4_zone cfg netblock s =
       (Inr (),
        s\<lparr>namedconf_entries := dict_set zonename (zone_fname zonename) (namedconf_entries s),
          files := (files s)(zone_path cfg zonename \<mapsto>
            zone_header cfg zonename #
            map ptr_line (filter (\<lambda>(ip, r). contains (IPv4Network n p) ip) (ptr_records s)))\<rparr>)"
proof -
  from IPv4Network_str_Inr [OF assms(1)] have p32: "p \<le> 32" and hb: "n AND netmask4 p = n"
    by simp_all
  from aligned_zone_name [OF p32 assms(2) hb assms(3)] obtain z where
    pn: "pointer_name (IPv4Address n) = concat (replicate ((32 - p) div 8) ''0.'') @ z"
    and ls: "lstrip ''0.'' (pointer_name (IPv4Address n)) = z"
    and nz: "z \<noteq> []" "hd z \<notin> set ''0.''"
    by blast
  have rp: "reverse_pointer (IPv4Address n) = Inr (pointer_name (IPv4Address n))"
    by (simp add: unscoped_pointer unscoped_def)
  have u: "\<forall>(ip, r) \<in> set (ptr_records s). contains (IPv4Network n p) ip \<longrightarrow> unscoped ip"
    using contains_v4_unscoped by blast
  have "write_ptr4_zone cfg netblock s = write_ptr_zone cfg z (IPv4Network n p) s"
    using assms(2)
    by (simp add: write_ptr4_zone_def and_then_def lift_def assms(1) prefixlen_def
        network_address_def rp ls)
  with write_ptr_zone_result [OF u, of cfg z] rp pn nz show ?thesis
    by auto
qed

theorem aligned_block_one_zone_witness:
  "IPv4Network_str ''172.20.0.0/16'' = Inr (IPv4Network 0xAC140000 16) \<and>
   (16 :: nat) mod 8 = 0 \<and> to_bytes4 0xAC140000 ! (16 div 8 - 1) \<noteq> 0 \<and>
   reverse_pointer (IPv4Address 0xAC140000) = Inr (''0.0.'' @ ''20.172.in-addr.arpa'') \<and>
   write_ptr4_zone example_config ''172.20.0.0/16'' (initial_state Map.empty) =
     (Inr (),
      \<lparr>ptr_records = [],
       namedconf_entries = [(''20.172.in-addr.arpa'', ''20.172.in-addr.arpa.zone'')],
       files = [''global-config/dns-zones/20.172.in-addr.arpa.zone'' \<mapsto>
                  [zone_header example_config ''20.172.in-addr.arpa'']]\<rparr>)"
proof -
  have h2: "(16 :: nat) mod 8 = 0" by simp
  have h3: "(16 :: nat) = 0 \<or> to_bytes4 0xAC140000 ! (16 div 8 - 1) \<noteq> 0"
    by (simp only: octet_20_16) simp
  from aligned_block_one_zone [OF net_20_16 h2 h3, of example_config "initial_state Map.empty"]
  obtain zonename where
    a: "reverse_pointer (IPv4Address 0xAC140000) =
          Inr (concat (replicate ((32 - 16) div 8) ''0.'') @ zonename)"
    and e: "write_ptr4_zone example_config ''172.20.0.0/16'' (initial_state Map.empty) =
       (Inr (),
        (initial_state Map.empty)\<lparr>namedconf_entries :=
            dict_set zonename (zone_fname zonename) (namedconf_entries (initial_state Map.empty)),
          files := (files (initial_state Map.empty))(zone_path example_config zonename \<mapsto>
            zone_header example_config zonename #
            map ptr_line (filter (\<lambda>(ip, r). contains (IPv4Network 0xAC140000 16) ip)
                            (ptr_records (initial_state Map.empty))))\<rparr>)"
    by blast
  have "concat (replicate ((32 - 16) div 8) ''0.'') = ''0.0.''"
    by (simp add: zero_octets)
  with a have z: "zonename = ''20.172.in-addr.arpa''"
    by (simp add: rp_20_16)
  show ?thesis
    unfolding e using h3
    by (simp add: net_20_16 rp_20_16 z fname_20 path_20 initial_state_def)
qed

text \<open>
  C3 as it is stated fails at \<^verbatim>\<open>172.20.0.0/16\<close>: the reverse pointer of the network
  address is \<^verbatim>\<open>0.0.20.172.in-addr.arpa\<close> and the zone is \<^verbatim>\<open>20.172.in-addr.arpa\<close>, with
  two leading components removed, not one.
\<close>

theorem aligned_block_two_octets_counterexample:
  "IPv4Network_str ''172.20.0.0/16'' = Inr (IPv4Network 0xAC140000 16) \<and>
   reverse_pointer (IPv4Address 0xAC140000) = Inr ''0.0.20.172.in-addr.arpa'' \<and>
   namedconf_entries (snd (write_ptr4_zone example_config ''172.20.0.0/16'' (initial_state Map.empty))) =
     [(''20.172.in-addr.arpa'', ''20.172.in-addr.arpa.zone'')] \<and>
   ''20.172.in-addr.arpa'' \<noteq> ''0.20.172.in-addr.arpa''"
  by code_simp

text \<open>
  C4 at its input: for the block \<^verbatim>\<open>172.20.229.0/24\<close> and a PTR index that holds
  \<^verbatim>\<open>172.20.229.1 -> gw.example.dn42\<close>, \<^verbatim>\<open>write_ptr4_zone\<close> produces the one zone
  \<^verbatim>\<open>229.20.172.in-addr.arpa\<close>, and the owner name of its one record line is the whole
  reverse pointer \<^verbatim>\<open>1.229.20.172.in-addr.arpa\<close>, not \<^verbatim>\<open>1\<close>.
\<close>

theorem aligned_zone_owner_is_full_pointer:
  "write_ptr4_zone cfg ''172.20.229.0/24''
          (s\<lparr>ptr_records := [(IPv4Address 0xAC14E501, ''gw.example.dn42'')]\<rparr>) =
     (Inr (),
      s\<lparr>ptr_records := [(IPv4Address 0xAC14E501, ''gw.example.dn42'')],
        namedconf_entries :=
          dict_set ''229.20.172.in-addr.arpa'' ''229.20.172.in-addr.arpa.zone'' (namedconf_entries s),
        files := (files s)(zone_path cfg ''229.20.172.in-addr.arpa'' \<mapsto>
          [zone_header cfg ''229.20.172.in-addr.arpa'',
           ''1.229.20.172.in-addr.arpa IN PTR gw.example.dn42.\<newline>''])\<rparr>) \<and>
   ''1.229.20.172.in-addr.arpa IN PTR gw.example.dn42.\<newline>'' \<noteq> ''1 IN PTR gw.example.dn42.\<newline>''"
proof -
  let ?s = "s\<lparr>ptr_records := [(IPv4Address 0xAC14E501, ''gw.example.dn42'')]\<rparr>"
  have u: "\<forall>(ip, r) \<in> set (ptr_records ?s). contains (IPv4Network 0xAC14E500 24) ip \<longrightarrow> unscoped ip"
    by (simp add: unscoped_def)
  have "write_ptr4_zone cfg ''172.20.229.0/24'' ?s =
          write_ptr_zone cfg ''229.20.172.in-addr.arpa'' (IPv4Network 0xAC14E500 24) ?s"
    by (simp add: write_ptr4_zone_def and_then_def lift_def net_229_24 prefixlen_def
        network_address_def rp_229_0 lstrip_229)
  then show ?thesis
    by (simp add: write_ptr_zone_result [OF u] contains_229_1 ptr_line_def pointer_name_def rp_229_1
        dotted_def endswith_dot_def entry_line_def nl_def fname_229)
qed

section \<open>The claim about the registry\<close>

text \<open>
  C9, as the code has it. The registry is a dictionary keyed by the zone name: creating
  zones one after the other from the empty registry leaves one entry for every zone name
  created, in the order in which the names were first created, each with the file name
  of the zone; after any run of \<^verbatim>\<open>main\<close> the zone names of the registry are pairwise
  different. \<^verbatim>\<open>write_named_conf\<close> writes the options stanza followed by one zone stanza
  for every entry of the registry, in the order of the registry, and a run of \<^verbatim>\<open>main\<close>
  that succeeds ends with exactly that file.
\<close>

theorem registry_one_entry_per_zone_name:
  "namedconf_entries (snd (for_each (\<lambda>z. and_then (get_zone_file cfg z) (\<lambda>fd. return ())) zs
                             (initial_state fs))) =
     map (\<lambda>z. (z, replace_char CHR ''/'' CHR ''_'' z @ ''.zone'')) (rev (remdups (rev zs))) \<and>
   distinct (map fst (namedconf_entries
     (snd (main cfg hosts dns_records ownnets4 ownnets6 (initial_state fs))))) \<and>
   write_named_conf cfg s =
     (Inr (), s\<lparr>files := (files s)(named_conf_path \<mapsto>
                  options_stanza cfg # map zone_stanza (namedconf_entries s))\<rparr>) \<and>
   (fst (main cfg hosts dns_records ownnets4 ownnets6 (initial_state fs)) = Inr () \<longrightarrow>
    files (snd (main cfg hosts dns_records ownnets4 ownnets6 (initial_state fs))) named_conf_path =
      Some (options_stanza cfg # map zone_stanza (namedconf_entries
              (snd (main cfg hosts dns_records ownnets4 ownnets6 (initial_state fs))))))"
proof -
  have "zones_distinct (initial_state fs)"
    by (simp add: zones_distinct_def initial_state_def)
  then have "zones_distinct (snd (main cfg hosts dns_records ownnets4 ownnets6 (initial_state fs)))"
    by (rule main_zones)
  then show ?thesis
    using create_zones_registry [of cfg zs fs] write_named_conf_result [of cfg s]
      main_renders_registry [of cfg hosts dns_records ownnets4 ownnets6 "initial_state fs"]
    by (simp add: zones_distinct_def)
qed

theorem registry_one_entry_per_zone_name_witness:
  "fst (main example_config [] [] [''172.20.229.112/28'', ''172.20.229.128/28''] []
          (initial_state Map.empty)) = Inr () \<and>
   files (snd (main example_config [] [] [''172.20.229.112/28'', ''172.20.229.128/28''] []
          (initial_state Map.empty))) named_conf_path =
     Some (options_stanza example_config # map zone_stanza
       [(''112/28.229.20.172.in-addr.arpa'', ''112_28.229.20.172.in-addr.arpa.zone''),
        (''229.20.172.in-addr.arpa'', ''229.20.172.in-addr.arpa.zone''),
        (''128/28.229.20.172.in-addr.arpa'', ''128_28.229.20.172.in-addr.arpa.zone'')])"
proof -
  let ?r = "main example_config [] [] [''172.20.229.112/28'', ''172.20.229.128/28''] []
          (initial_state Map.empty)"
  from registry_one_entry_per_zone_name [of example_config "[]" Map.empty "[]" "[]"
          "[''172.20.229.112/28'', ''172.20.229.128/28'']" "[]"]
  have "fst ?r = Inr () \<longrightarrow>
        files (snd ?r) named_conf_path =
          Some (options_stanza example_config # map zone_stanza (namedconf_entries (snd ?r)))"
    by blast
  with two_blocks_run show ?thesis
    by simp
qed

text \<open>
  C9 as it is stated fails where two zones share a name: two calls of
  \<^verbatim>\<open>get_zone_file\<close> with one name leave one entry, and a run over the blocks
  \<^verbatim>\<open>172.20.229.112/28\<close> and \<^verbatim>\<open>172.20.229.128/28\<close>, which creates four zone files (two
  of them the classful zone \<^verbatim>\<open>229.20.172.in-addr.arpa\<close>), leaves three entries.
\<close>

theorem registry_shared_zone_name_counterexample:
  "namedconf_entries (snd (for_each (\<lambda>z. and_then (get_zone_file example_config z) (\<lambda>fd. return ()))
      [''229.20.172.in-addr.arpa'', ''229.20.172.in-addr.arpa''] (initial_state Map.empty))) =
     [(''229.20.172.in-addr.arpa'', ''229.20.172.in-addr.arpa.zone'')] \<and>
   namedconf_entries (snd (main example_config [] [] [''172.20.229.112/28'', ''172.20.229.128/28''] []
          (initial_state Map.empty))) =
     [(''112/28.229.20.172.in-addr.arpa'', ''112_28.229.20.172.in-addr.arpa.zone''),
      (''229.20.172.in-addr.arpa'', ''229.20.172.in-addr.arpa.zone''),
      (''128/28.229.20.172.in-addr.arpa'', ''128_28.229.20.172.in-addr.arpa.zone'')]"
  using two_blocks_run
  by (simp add: and_then_def get_zone_file_result return_def initial_state_def fname_229)

section \<open>Blocks of the IPv6 scenarios\<close>

lemma net6_fd00: "IPv6Network_str ''fd00::/8'' = Inr (IPv6Network 0xfd000000000000000000000000000000 None 8)"
  by code_simp

lemma rp6_fd00:
  "reverse_pointer (IPv6Address 0xfd000000000000000000000000000000 None) =
     Inr ''0.0.0.0.0.0.0.0.0.0.0.0.0.0.0.0.0.0.0.0.0.0.0.0.0.0.0.0.0.0.d.f.ip6.arpa''"
  by code_simp

lemma rp6_fd00_1:
  "reverse_pointer (IPv6Address 0xfd000000000000000000000000000001 None) =
     Inr ''1.0.0.0.0.0.0.0.0.0.0.0.0.0.0.0.0.0.0.0.0.0.0.0.0.0.0.0.0.0.d.f.ip6.arpa''"
  by code_simp

lemma rp6_fd00_2:
  "reverse_pointer (IPv6Address 0xfd000000000000000000000000000002 None) =
     Inr ''2.0.0.0.0.0.0.0.0.0.0.0.0.0.0.0.0.0.0.0.0.0.0.0.0.0.0.0.0.0.d.f.ip6.arpa''"
  by code_simp

lemma lstrip6_fd00:
  "lstrip ''0.'' ''0.0.0.0.0.0.0.0.0.0.0.0.0.0.0.0.0.0.0.0.0.0.0.0.0.0.0.0.0.0.d.f.ip6.arpa'' = ''d.f.ip6.arpa''"
  by code_simp

lemma contains6_fd00_1:
  "contains (IPv6Network 0xfd000000000000000000000000000000 None 8)
     (IPv6Address 0xfd000000000000000000000000000001 None)"
  by code_simp

lemma contains6_fd00_2:
  "contains (IPv6Network 0xfd000000000000000000000000000000 None 8)
     (IPv6Address 0xfd000000000000000000000000000002 None)"
  by code_simp

lemma ip_address_fd00_2:
  "ip_address ''fd00::2'' = Inr (IPv6Address 0xfd000000000000000000000000000002 None)"
  by code_simp

lemma ip_address_scoped:
  "ip_address ''fe80::1%eth0'' = Inr (IPv6Address 0xfe800000000000000000000000000001 (Some ''eth0''))"
  by code_simp

lemma net6_fe80: "IPv6Network_str ''fe80::/64'' = Inr (IPv6Network 0xfe800000000000000000000000000000 None 64)"
  by code_simp

lemma rp6_fe80:
  "reverse_pointer (IPv6Address 0xfe800000000000000000000000000000 None) =
     Inr ''0.0.0.0.0.0.0.0.0.0.0.0.0.0.0.0.0.0.0.0.0.0.0.0.0.0.0.0.0.8.e.f.ip6.arpa''"
  by code_simp

lemma lstrip6_fe80:
  "lstrip ''0.'' ''0.0.0.0.0.0.0.0.0.0.0.0.0.0.0.0.0.0.0.0.0.0.0.0.0.0.0.0.0.8.e.f.ip6.arpa'' = ''8.e.f.ip6.arpa''"
  by code_simp

lemma contains6_fe80_1:
  "contains (IPv6Network 0xfe800000000000000000000000000000 None 64)
     (IPv6Address 0xfe800000000000000000000000000001 (Some ''eth0''))"
  by code_simp

lemma fname6: "zone_fname ''d.f.ip6.arpa'' = ''d.f.ip6.arpa.zone''"
  by code_simp

lemma path6: "zone_path example_config ''d.f.ip6.arpa'' = ''global-config/dns-zones/d.f.ip6.arpa.zone''"
  by code_simp

section \<open>The claim about the enumeration of the PTR index\<close>

lemma filter_keys:
  "set (map fst (filter (\<lambda>(ip, r). P ip) es)) = {ip \<in> set (map fst es). P ip}"
  by (induction es) auto

lemma filter_keys_distinct:
  "distinct (map fst es) \<Longrightarrow> distinct (map fst (filter (\<lambda>(ip, r). P ip) es))"
  by (induction es) (auto simp: filter_keys)

text \<open>
  C5, as the code has it. \<^verbatim>\<open>_write_ptr_zone\<close> goes through the PTR index in the order of
  the index (the order in which the addresses were first recorded) and keeps the entries
  whose address is in the block. When no indexed address in the block carries a scope
  id, it succeeds, and the zone file holds the header and then one PTR line for each of
  these entries, in that order; their addresses are exactly the indexed addresses in the
  block, each of them once. For an IPv6 block that \<^verbatim>\<open>IPv6Network\<close> accepts and whose
  network address carries no scope id, \<^verbatim>\<open>write_ptr6_zone\<close> is this enumeration into the
  zone named by the reverse pointer of the network address without its leading \<^verbatim>\<open>0\<close> and
  \<^verbatim>\<open>.\<close> characters.
\<close>

theorem ptr_zone_entries_in_index_order:
  assumes "\<forall>(ip, r) \<in> set (ptr_records s). contains ipnet ip \<longrightarrow> unscoped ip"
    and "keys_distinct s"
  shows "write_ptr_zone cfg zonename ipnet s =
       (Inr (),
        s\<lparr>namedconf_entries := dict_set zonename (zone_fname zonename) (namedconf_entries s),
          files := (files s)(zone_path cfg zonename \<mapsto>
            zone_header cfg zonename #
            map ptr_line (filter (\<lambda>(ip, r). contains ipnet ip) (ptr_records s)))\<rparr>) \<and>
     set (map fst (filter (\<lambda>(ip, r). contains ipnet ip) (ptr_records s))) =
       {ip \<in> set (map fst (ptr_records s)). contains ipnet ip} \<and>
     distinct (map fst (filter (\<lambda>(ip, r). contains ipnet ip) (ptr_records s))) \<and>
     (IPv6Network_str netblock = Inr ipnet \<and> unscoped (network_address ipnet) \<longrightarrow>
        write_ptr6_zone cfg netblock s =
          write_ptr_zone cfg (lstrip ''0.'' (pointer_name (network_address ipnet))) ipnet s)"
proof -
  have "write_ptr6_zone cfg netblock s =
          write_ptr_zone cfg (lstrip ''0.'' (pointer_name (network_address ipnet))) ipnet s"
    if "IPv6Network_str netblock = Inr ipnet" and "unscoped (network_address ipnet)"
    using that by (simp add: write_ptr6_zone_def and_then_def lift_def unscoped_pointer)
  moreover have "distinct (map fst (filter (\<lambda>(ip, r). contains ipnet ip) (ptr_records s)))"
    using assms(2) unfolding keys_distinct_def by (rule filter_keys_distinct)
  ultimately show ?thesis
    using write_ptr_zone_result [OF assms(1), of cfg zonename]
    by (simp only: filter_keys) simp
qed

theorem ptr_zone_entries_in_index_order_witness:
  "unscoped (IPv6Address 0xfd000000000000000000000000000002 None) \<and>
   unscoped (IPv6Address 0xfd000000000000000000000000000001 None) \<and>
   IPv6Address 0xfd000000000000000000000000000002 None \<noteq>
     IPv6Address 0xfd000000000000000000000000000001 None \<and>
   IPv6Network_str ''fd00::/8'' = Inr (IPv6Network 0xfd000000000000000000000000000000 None 8) \<and>
   unscoped (network_address (IPv6Network 0xfd000000000000000000000000000000 None 8)) \<and>
   write_ptr6_zone example_config ''fd00::/8''
     \<lparr>ptr_records = [(IPv6Address 0xfd000000000000000000000000000002 None, ''b.example.dn42''),
                     (IPv6Address 0xfd000000000000000000000000000001 None, ''a.example.dn42.'')],
      namedconf_entries = [], files = Map.empty\<rparr> =
     (Inr (),
      \<lparr>ptr_records = [(IPv6Address 0xfd000000000000000000000000000002 None, ''b.example.dn42''),
                      (IPv6Address 0xfd000000000000000000000000000001 None, ''a.example.dn42.'')],
       namedconf_entries = [(''d.f.ip6.arpa'', ''d.f.ip6.arpa.zone'')],
       files = [''global-config/dns-zones/d.f.ip6.arpa.zone'' \<mapsto>
         [zone_header example_config ''d.f.ip6.arpa'',
          ''2.0.0.0.0.0.0.0.0.0.0.0.0.0.0.0.0.0.0.0.0.0.0.0.0.0.0.0.0.0.d.f.ip6.arpa IN PTR b.example.dn42.\<newline>'',
          ''1.0.0.0.0.0.0.0.0.0.0.0.0.0.0.0.0.0.0.0.0.0.0.0.0.0.0.0.0.0.d.f.ip6.arpa IN PTR a.example.dn42.\<newline>'']]\<rparr>)"
proof -
  let ?a2 = "IPv6Address 0xfd000000000000000000000000000002 None"
  let ?a1 = "IPv6Address 0xfd000000000000000000000000000001 None"
  let ?net = "IPv6Network 0xfd000000000000000000000000000000 None 8"
  let ?s = "\<lparr>ptr_records = [(?a2, ''b.example.dn42''), (?a1, ''a.example.dn42.'')],
             namedconf_entries = [], files = Map.empty\<rparr>"
  have u: "unscoped ?a2" "unscoped ?a1" "unscoped (network_address ?net)"
    by (simp_all add: unscoped_def network_address_def)
  have h1: "\<forall>(ip, r) \<in> set (ptr_records ?s). contains ?net ip \<longrightarrow> unscoped ip"
    using u by simp
  have h2: "keys_distinct ?s"
    by (simp add: keys_distinct_def)
  have pn: "pointer_name (network_address ?net) =
              ''0.0.0.0.0.0.0.0.0.0.0.0.0.0.0.0.0.0.0.0.0.0.0.0.0.0.0.0.0.0.d.f.ip6.arpa''"
    by (simp only: network_address_def ipnetwork.case pointer_name_def rp6_fd00 sum.case)
  from ptr_zone_entries_in_index_order [OF h1 h2, of example_config "''d.f.ip6.arpa''" "''fd00::/8''"]
  have e: "write_ptr_zone example_config ''d.f.ip6.arpa'' ?net ?s =
       (Inr (),
        ?s\<lparr>namedconf_entries := dict_set ''d.f.ip6.arpa'' (zone_fname ''d.f.ip6.arpa'') (namedconf_entries ?s),
          files := (files ?s)(zone_path example_config ''d.f.ip6.arpa'' \<mapsto>
            zone_header example_config ''d.f.ip6.arpa'' #
            map ptr_line (filter (\<lambda>(ip, r). contains ?net ip) (ptr_records ?s)))\<rparr>)"
    and w: "IPv6Network_str ''fd00::/8'' = Inr ?net \<and> unscoped (network_address ?net) \<longrightarrow>
        write_ptr6_zone example_config ''fd00::/8'' ?s =
          write_ptr_zone example_config (lstrip ''0.'' (pointer_name (network_address ?net))) ?net ?s"
    by blast+
  from w u(3) have "write_ptr6_zone example_config ''fd00::/8'' ?s =
      write_ptr_zone example_config ''d.f.ip6.arpa'' ?net ?s"
    by (simp only: net6_fd00 pn lstrip6_fd00)
  then show ?thesis
    unfolding e using u
    by (simp add: net6_fd00 contains6_fd00_1 contains6_fd00_2 fname6 path6 ptr_line_def
        pointer_name_def rp6_fd00_1 rp6_fd00_2 dotted_def endswith_dot_def entry_line_def nl_def)
qed

text \<open>
  C5 as it is stated fails twice. The index \<^verbatim>\<open>{fd00::2: b.example.dn42, fd00::1:
  a.example.dn42}\<close> gives the zone of \<^verbatim>\<open>fd00::/8\<close> the line of \<^verbatim>\<open>fd00::2\<close> before the line
  of \<^verbatim>\<open>fd00::1\<close>: the order of the index, not the ascending order of the addresses. And
  an index that holds the scoped address \<^verbatim>\<open>fe80::1%eth0\<close>, which \<^verbatim>\<open>ip_address\<close> accepts
  and which is in \<^verbatim>\<open>fe80::/64\<close>, makes \<^verbatim>\<open>write_ptr6_zone\<close> raise at the reverse pointer of
  that address: the zone file is left with its header and without the record.
\<close>

theorem ptr_zone_index_order_counterexample:
  "ip_address ''fd00::2'' = Inr (IPv6Address 0xfd000000000000000000000000000002 None) \<and>
   ip_address ''fd00::1'' = Inr (IPv6Address 0xfd000000000000000000000000000001 None) \<and>
   (0xfd000000000000000000000000000001 :: 128 word) < 0xfd000000000000000000000000000002 \<and>
   files (snd (write_ptr6_zone example_config ''fd00::/8''
     \<lparr>ptr_records = [(IPv6Address 0xfd000000000000000000000000000002 None, ''b.example.dn42''),
                     (IPv6Address 0xfd000000000000000000000000000001 None, ''a.example.dn42'')],
      namedconf_entries = [], files = Map.empty\<rparr>))
     ''global-config/dns-zones/d.f.ip6.arpa.zone'' =
     Some [zone_header example_config ''d.f.ip6.arpa'',
        ''2.0.0.0.0.0.0.0.0.0.0.0.0.0.0.0.0.0.0.0.0.0.0.0.0.0.0.0.0.0.d.f.ip6.arpa IN PTR b.example.dn42.\<newline>'',
        ''1.0.0.0.0.0.0.0.0.0.0.0.0.0.0.0.0.0.0.0.0.0.0.0.0.0.0.0.0.0.d.f.ip6.arpa IN PTR a.example.dn42.\<newline>''] \<and>
   ip_address ''fe80::1%eth0'' =
     Inr (IPv6Address 0xfe800000000000000000000000000001 (Some ''eth0'')) \<and>
   contains (IPv6Network 0xfe800000000000000000000000000000 None 64)
     (IPv6Address 0xfe800000000000000000000000000001 (Some ''eth0'')) \<and>
   fst (write_ptr6_zone example_config ''fe80::/64''
     \<lparr>ptr_records = [(IPv6Address 0xfe800000000000000000000000000001 (Some ''eth0''), ''r.example.dn42'')],
      namedconf_entries = [], files = Map.empty\<rparr>) = Inl AddressParseError \<and>
   files (snd (write_ptr6_zone example_config ''fe80::/64''
     \<lparr>ptr_records = [(IPv6Address 0xfe800000000000000000000000000001 (Some ''eth0''), ''r.example.dn42'')],
      namedconf_entries = [], files = Map.empty\<rparr>))
     ''global-config/dns-zones/8.e.f.ip6.arpa.zone'' =
     Some [zone_header example_config ''8.e.f.ip6.arpa'']"
  by code_simp

end
